theory Spec2Isabelle
  imports Complex_Main "HOL-Library.Log_Nat" "HOL-Library.Sublist"
begin

section \<open>Python values used by WorkforceOptimizer\<close>

subsection \<open>Binary64 floating point\<close>

text \<open>
  Python's \<open>float\<close> is an IEEE 754 binary64 number. A finite value is kept as the
  rational it denotes; \<open>NZero\<close> is \<open>-0.0\<close> (\<open>Fin 0\<close> is \<open>+0.0\<close>). Every arithmetic
  operation computes the exact rational result and rounds it to the nearest representable
  value, ties to even, with gradual underflow and overflow to infinity.
\<close>

datatype dbl = Fin rat | NZero | PInf | NInf | NaN

definition pow2 :: "int \<Rightarrow> rat" where
  "pow2 e = (if 0 \<le> e then 2 ^ nat e else 1 / 2 ^ nat (- e))"

text \<open>\<open>ilog2 x\<close> is \<open>\<lfloor>log\<^sub>2 x\<rfloor>\<close> for a positive rational \<open>x\<close>.\<close>

definition ilog2 :: "rat \<Rightarrow> int" where
  "ilog2 x = (case quotient_of x of (n, d) \<Rightarrow>
     (let k = bitlen n - bitlen d in if pow2 k \<le> x then k else k - 1))"

definition round_half_even :: "rat \<Rightarrow> int" where
  "round_half_even x =
     (let f = \<lfloor>x\<rfloor>; d = x - of_int f
      in if d < 1 / 2 then f else if 1 / 2 < d then f + 1 else if even f then f else f + 1)"

text \<open>
  Rounding to 53 significant bits with the exponent unbounded above: the unit in the last
  place is \<open>2 ^ (ilog2 |x| - 52)\<close>, but never below the subnormal spacing \<open>2 ^ -1074\<close>.
\<close>

definition ulp_exp :: "rat \<Rightarrow> int" where
  "ulp_exp x = max (ilog2 \<bar>x\<bar> - 52) (- 1074)"

definition round_fin :: "rat \<Rightarrow> rat" where
  "round_fin x =
     (if x = 0 then 0
      else of_int (round_half_even (x / pow2 (ulp_exp x))) * pow2 (ulp_exp x))"

text \<open>
  \<open>round_dbl neg x\<close> is the binary64 result for the exact value \<open>x\<close>; \<open>neg\<close> is the sign
  given to an exact zero.
\<close>

definition round_dbl :: "bool \<Rightarrow> rat \<Rightarrow> dbl" where
  "round_dbl neg x =
     (let y = round_fin x
      in if 2 ^ 1024 \<le> y then PInf
         else if y \<le> - (2 ^ 1024) then NInf
         else if y = 0 then (if x < 0 \<or> (x = 0 \<and> neg) then NZero else Fin 0)
         else Fin y)"

fun val :: "dbl \<Rightarrow> rat" where
  "val (Fin x) = x"
| "val _ = 0"

fun is_nan :: "dbl \<Rightarrow> bool" where
  "is_nan NaN = True"
| "is_nan _ = False"

fun is_inf :: "dbl \<Rightarrow> bool" where
  "is_inf PInf = True"
| "is_inf NInf = True"
| "is_inf _ = False"

fun is_zero :: "dbl \<Rightarrow> bool" where
  "is_zero (Fin x) = (x = 0)"
| "is_zero NZero = True"
| "is_zero _ = False"

fun is_finite :: "dbl \<Rightarrow> bool" where
  "is_finite (Fin x) = True"
| "is_finite NZero = True"
| "is_finite _ = False"

text \<open>The sign bit.\<close>

fun is_neg :: "dbl \<Rightarrow> bool" where
  "is_neg (Fin x) = (x < 0)"
| "is_neg NZero = True"
| "is_neg NInf = True"
| "is_neg _ = False"

definition signed_inf :: "bool \<Rightarrow> dbl" where
  "signed_inf neg = (if neg then NInf else PInf)"

definition signed_zero :: "bool \<Rightarrow> dbl" where
  "signed_zero neg = (if neg then NZero else Fin 0)"

text \<open>\<open>x * y\<close> on floats.\<close>

definition fmul :: "dbl \<Rightarrow> dbl \<Rightarrow> dbl" where
  "fmul x y =
     (if is_nan x \<or> is_nan y then NaN
      else if is_inf x \<or> is_inf y then
        (if is_zero x \<or> is_zero y then NaN else signed_inf (is_neg x \<noteq> is_neg y))
      else round_dbl (is_neg x \<noteq> is_neg y) (val x * val y))"

text \<open>\<open>x + y\<close> and \<open>x - y\<close> on floats.\<close>

definition fadd :: "dbl \<Rightarrow> dbl \<Rightarrow> dbl" where
  "fadd x y =
     (if is_nan x \<or> is_nan y then NaN
      else if is_inf x then (if is_inf y \<and> is_neg x \<noteq> is_neg y then NaN else x)
      else if is_inf y then y
      else round_dbl (is_neg x \<and> is_neg y) (val x + val y))"

fun fneg :: "dbl \<Rightarrow> dbl" where
  "fneg (Fin x) = (if x = 0 then NZero else Fin (- x))"
| "fneg NZero = Fin 0"
| "fneg PInf = NInf"
| "fneg NInf = PInf"
| "fneg NaN = NaN"

definition fsub :: "dbl \<Rightarrow> dbl \<Rightarrow> dbl" where
  "fsub x y = fadd x (fneg y)"

text \<open>The exceptions of Python that the modelled code can raise.\<close>

datatype error = ValueError | TypeError | OverflowError | ZeroDivisionError | KeyError string

text \<open>
  \<open>x / y\<close> on floats: Python raises \<open>ZeroDivisionError\<close> for a zero divisor of either
  sign, whatever the dividend is.
\<close>

definition fdiv :: "dbl \<Rightarrow> dbl \<Rightarrow> error + dbl" where
  "fdiv x y =
     (if is_zero y then Inl ZeroDivisionError
      else Inr (if is_nan x \<or> is_nan y then NaN
                else if is_inf x then
                  (if is_inf y then NaN else signed_inf (is_neg x \<noteq> is_neg y))
                else if is_inf y then signed_zero (is_neg x \<noteq> is_neg y)
                else round_dbl (is_neg x \<noteq> is_neg y) (val x / val y)))"

text \<open>Comparisons: every comparison with a NaN is false; the two zeros are equal.\<close>

fun fle :: "dbl \<Rightarrow> dbl \<Rightarrow> bool" where
  "fle NaN _ = False"
| "fle _ NaN = False"
| "fle NInf _ = True"
| "fle _ PInf = True"
| "fle PInf _ = False"
| "fle _ NInf = False"
| "fle x y = (val x \<le> val y)"

fun flt :: "dbl \<Rightarrow> dbl \<Rightarrow> bool" where
  "flt NaN _ = False"
| "flt _ NaN = False"
| "flt PInf _ = False"
| "flt _ NInf = False"
| "flt NInf _ = True"
| "flt _ PInf = True"
| "flt x y = (val x < val y)"

text \<open>\<open>float.is_integer\<close>: a finite value without fractional part.\<close>

definition is_integer :: "dbl \<Rightarrow> bool" where
  "is_integer x = (is_finite x \<and> of_int \<lfloor>val x\<rfloor> = val x)"

text \<open>A float literal of the source text, and an \<open>int\<close> operand converted for a float operation.\<close>

definition lit :: "rat \<Rightarrow> dbl" where
  "lit r = round_dbl False r"

subsection \<open>Strings\<close>

text \<open>The apostrophe that quotes a field name inside a message.\<close>

abbreviation apos :: string where
  "apos \<equiv> [CHR 0x27]"

fun str_nat :: "nat \<Rightarrow> string" where
  "str_nat n =
     (if n < 10 then [''0123456789'' ! n]
      else str_nat (n div 10) @ [''0123456789'' ! (n mod 10)])"

declare str_nat.simps [simp del]

text \<open>\<open>needle in haystack\<close> on strings.\<close>

fun is_substring :: "string \<Rightarrow> string \<Rightarrow> bool" where
  "is_substring p [] = (p = [])"
| "is_substring p (c # cs) = (prefix p (c # cs) \<or> is_substring p cs)"

text \<open>\<open>"\n".join(lines)\<close>.\<close>

fun join_lines :: "string list \<Rightarrow> string" where
  "join_lines [] = []"
| "join_lines [l] = l"
| "join_lines (l # ls) = l @ ''\<newline>'' @ join_lines ls"

text \<open>
  \<open>"{:.2f}".format(x)\<close>: the exact value rounded to two decimals, ties to even; the sign
  bit is shown also on a zero.
\<close>

definition pad2 :: "nat \<Rightarrow> string" where
  "pad2 n = (if n < 10 then ''0'' @ str_nat n else str_nat n)"

definition fmt2 :: "dbl \<Rightarrow> string" where
  "fmt2 x =
     (case x of
        NaN \<Rightarrow> ''nan''
      | PInf \<Rightarrow> ''inf''
      | NInf \<Rightarrow> ''-inf''
      | _ \<Rightarrow>
        (let n = nat (round_half_even (\<bar>val x\<bar> * 100))
         in (if is_neg x then ''-'' else '''') @ str_nat (n div 100) @ ''.'' @ pad2 (n mod 100)))"

subsection \<open>Raw input values and records\<close>

text \<open>
  A value as the parsers deliver it: \<open>json.loads\<close> yields strings, numbers, booleans,
  \<open>None\<close>, lists and objects; \<open>csv.DictReader\<close> yields strings, and \<open>None\<close> for the
  columns a short row lacks.
\<close>

datatype raw =
    StrV string
  | IntV int
  | FloatV dbl
  | BoolV bool
  | NoneV
  | ListV "raw list"
  | DictV "(string \<times> raw) list"

text \<open>
  A team record is a \<open>dict\<close> with string keys, represented by its items in insertion
  order; the keys of a dict are distinct.
\<close>

type_synonym team = "(string \<times> raw) list"

definition is_dict :: "team \<Rightarrow> bool" where
  "is_dict t = distinct (map fst t)"

definition has_key :: "team \<Rightarrow> string \<Rightarrow> bool" where
  "has_key t k = (map_of t k \<noteq> None)"

definition dict_len :: "team \<Rightarrow> nat" where
  "dict_len t = length (remdups (map fst t))"

text \<open>
  \<open>float(v)\<close>. The conversion of a \<open>str\<close> is the parameter \<open>pf\<close> (\<open>None\<close> where
  Python raises \<open>ValueError\<close>); an \<open>int\<close> is rounded, and raises \<open>OverflowError\<close>
  beyond the range of a float; \<open>None\<close>, lists and objects raise \<open>TypeError\<close>.
\<close>

fun to_float :: "(string \<Rightarrow> dbl option) \<Rightarrow> raw \<Rightarrow> error + dbl" where
  "to_float pf (StrV s) = (case pf s of None \<Rightarrow> Inl ValueError | Some d \<Rightarrow> Inr d)"
| "to_float pf (IntV i) =
     (let d = round_dbl False (of_int i) in if is_inf d then Inl OverflowError else Inr d)"
| "to_float pf (FloatV d) = Inr d"
| "to_float pf (BoolV b) = Inr (Fin (if b then 1 else 0))"
| "to_float pf NoneV = Inl TypeError"
| "to_float pf (ListV xs) = Inl TypeError"
| "to_float pf (DictV kvs) = Inl TypeError"

text \<open>Sequencing of computations that may raise.\<close>

definition bnd :: "error + 'a \<Rightarrow> ('a \<Rightarrow> error + 'b) \<Rightarrow> error + 'b" where
  "bnd m f = (case m of Inl e \<Rightarrow> Inl e | Inr x \<Rightarrow> f x)"

section \<open>The schema: \<open>WorkforceOptimizer.__init__\<close>\<close>

definition valid_fields :: "string list" where
  "valid_fields = [''team_id'', ''current_staff'', ''queries_per_day'',
     ''average_query_time'', ''shift_hours'',
     ''available_capacity'', ''remote_infrastructure_efficiency'']"

definition numeric_fields :: "string list" where
  "numeric_fields = [''current_staff'', ''queries_per_day'',
     ''average_query_time'', ''shift_hours'',
     ''available_capacity'', ''remote_infrastructure_efficiency'']"

definition positive_fields :: "string list" where
  "positive_fields = [''current_staff'', ''queries_per_day'',
     ''average_query_time'', ''shift_hours'']"

definition percentage_fields :: "string list" where
  "percentage_fields = [''available_capacity'', ''remote_infrastructure_efficiency'']"

section \<open>\<open>validate_data\<close>\<close>

text \<open>
  The f-strings of the error messages: a missing field, a value that is no number, and a
  value outside its range (\<open>expected\<close> is the text after \<open>Expected\<close>). The row is 1-based.
\<close>

definition missing_message :: "string \<Rightarrow> nat \<Rightarrow> string" where
  "missing_message field row =
     ''ERROR: Missing required field '' @ apos @ field @ apos @ '' in row '' @ str_nat row @ ''.''"

definition type_message :: "string \<Rightarrow> nat \<Rightarrow> string" where
  "type_message field row =
     ''ERROR: Invalid data type for '' @ apos @ field @ apos @ '' in row '' @ str_nat row
     @ ''. Expected a numeric value.''"

definition value_message :: "string \<Rightarrow> nat \<Rightarrow> string \<Rightarrow> string" where
  "value_message field row expected =
     ''ERROR: Invalid value for '' @ apos @ field @ apos @ '' in row '' @ str_nat row
     @ ''. Expected '' @ expected @ ''.''"

text \<open>The inner loop of the required-fields check: one error for every row that lacks the field.\<close>

fun missing_rows :: "string \<Rightarrow> nat \<Rightarrow> team list \<Rightarrow> string list" where
  "missing_rows field i [] = []"
| "missing_rows field i (t # ts) =
     (if \<not> has_key t field then [missing_message field (i + 1)] else [])
     @ missing_rows field (i + 1) ts"

text \<open>
  The loop over \<open>valid_fields\<close>; the state is the pair of \<open>validation_report\<close> and
  \<open>validation_errors\<close>.
\<close>

fun required_fields_check ::
  "team list \<Rightarrow> string list \<Rightarrow> string list \<times> string list \<Rightarrow> string list \<times> string list" where
  "required_fields_check teams [] (report, errors) = (report, errors)"
| "required_fields_check teams (field # fields) (report, errors) =
     (if list_all (\<lambda>t. has_key t field) teams
      then required_fields_check teams fields (report @ ['' - '' @ field @ '': present''], errors)
      else required_fields_check teams fields
             (report @ ['' - '' @ field @ '': missing''], errors @ missing_rows field 0 teams))"

text \<open>
  The body of the type and value loop for one row and one numeric field: the \<open>try\<close> block
  converts the value and checks its range; only \<open>ValueError\<close> is caught.
\<close>

definition check_value ::
  "(string \<Rightarrow> dbl option) \<Rightarrow> nat \<Rightarrow> team \<Rightarrow> string \<Rightarrow> string list \<Rightarrow> error + string list" where
  "check_value pf i t field errors =
     (case map_of t field of
        None \<Rightarrow> Inr errors
      | Some v \<Rightarrow>
        (case to_float pf v of
           Inl ValueError \<Rightarrow> Inr (errors @ [type_message field (i + 1)])
         | Inl e \<Rightarrow> Inl e
         | Inr value \<Rightarrow>
             Inr (if field \<in> set [''current_staff'', ''queries_per_day'']
                  then (if \<not> is_integer value \<or> fle value (lit 0)
                        then errors @ [value_message field (i + 1) ''positive integer'']
                        else errors)
                  else if field \<in> set [''average_query_time'', ''shift_hours'']
                  then (if fle value (lit 0)
                        then errors @ [value_message field (i + 1) ''positive number'']
                        else errors)
                  else if field \<in> set percentage_fields
                  then (if flt value (lit 0) \<or> flt (lit 100) value
                        then errors @ [value_message field (i + 1) ''value between 0 and 100'']
                        else errors)
                  else errors)))"

fun check_fields ::
  "(string \<Rightarrow> dbl option) \<Rightarrow> nat \<Rightarrow> team \<Rightarrow> string list \<Rightarrow> string list \<Rightarrow> error + string list" where
  "check_fields pf i t [] errors = Inr errors"
| "check_fields pf i t (field # fields) errors =
     bnd (check_value pf i t field errors) (check_fields pf i t fields)"

fun check_teams ::
  "(string \<Rightarrow> dbl option) \<Rightarrow> nat \<Rightarrow> team list \<Rightarrow> string list \<Rightarrow> error + string list" where
  "check_teams pf i [] errors = Inr errors"
| "check_teams pf i (t # ts) errors =
     bnd (check_fields pf i t numeric_fields errors) (check_teams pf (i + 1) ts)"

text \<open>One line of the validity rollup, as each of the three rollup loops appends it.\<close>

definition rollup_line :: "string \<Rightarrow> string list \<Rightarrow> string \<Rightarrow> string" where
  "rollup_line kind errors field =
     (if \<not> list_ex (is_substring (''Invalid value for '' @ apos @ field @ apos)) errors
      then '' - '' @ field @ '' ('' @ kind @ ''): validated''
      else '' - '' @ field @ '' ('' @ kind @ ''): not valid'')"

definition validation_summary :: "string list \<Rightarrow> string list" where
  "validation_summary errors =
     (if errors = [] then [''Data validation is successful!'']
      else [''Validation failed with the following errors:'']
           @ map (\<lambda>error. ''- '' @ error) errors
           @ [''\<newline>Please correct and resubmit this data again.''])"

definition validate_data ::
  "(string \<Rightarrow> dbl option) \<Rightarrow> team list \<Rightarrow> error + string list \<times> string list" where
  "validate_data pf teams =
     (let report = [''# Data Validation Report'', ''## Data Structure Check:'',
                    '' - Number of teams: '' @ str_nat (length teams)]
      in case teams of
           [] \<Rightarrow> Inr (report @ ['' - Number of fields per record: 0''],
                      [''ERROR: No teams found in the input data.''])
         | t0 # _ \<Rightarrow>
           (let report = report @ ['' - Number of fields per record: '' @ str_nat (dict_len t0)];
                report = report @ [''\<newline>## Required Fields Check:''];
                (report, errors) = required_fields_check teams valid_fields (report, []);
                report = report @ [''\<newline>## Data Type and Value Validation:'']
            in bnd (check_teams pf 0 teams errors) (\<lambda>errors.
                 let report = report @ map (rollup_line ''positive integer'' errors)
                                           (take 2 positive_fields);
                     report = report @ map (rollup_line ''positive number'' errors)
                                           (drop 2 positive_fields);
                     report = report @ map (rollup_line ''0 to 100'' errors) percentage_fields;
                     report = report @ [''\<newline>## Validation Summary:'']
                 in Inr (report @ validation_summary errors, errors))))"

section \<open>\<open>calculate_metrics\<close>\<close>

text \<open>
  The returned dict, one field for each key. \<open>team_id\<close> is passed through unconverted.
\<close>

record metrics =
  team_id :: raw
  current_staff :: dbl
  queries_per_day :: dbl
  average_query_time :: dbl
  shift_hours :: dbl
  available_capacity :: dbl
  remote_infrastructure_efficiency :: dbl
  workload_step1 :: dbl
  workload_per_agent :: dbl
  capacity_step1 :: dbl
  agent_capacity :: dbl
  utilization_rate :: dbl
  capacity_surplus_percentage :: dbl
  weighted_surplus :: dbl
  weighted_efficiency :: dbl
  weighted_utilization :: dbl
  composite_score :: dbl
  required_staff :: dbl
  staffing_efficiency_ratio :: dbl
  status :: string
  recommendation :: string

text \<open>
  The dict comprehension that builds \<open>team_data\<close> walks the items in order and converts
  the value of every numeric key with \<open>float\<close>; the first conversion that fails raises.
  The converted entries are kept as floats; the entries of the other keys are the ones of
  the record itself.
\<close>

fun convert_numeric :: "(string \<Rightarrow> dbl option) \<Rightarrow> team \<Rightarrow> error + (string \<times> dbl) list" where
  "convert_numeric pf [] = Inr []"
| "convert_numeric pf ((k, v) # items) =
     (if k \<in> set numeric_fields
      then bnd (to_float pf v) (\<lambda>d.
           bnd (convert_numeric pf items) (\<lambda>rest. Inr ((k, d) # rest)))
      else convert_numeric pf items)"

text \<open>\<open>d[k]\<close>, raising \<open>KeyError\<close> for an absent key.\<close>

definition getitem :: "(string \<times> 'a) list \<Rightarrow> string \<Rightarrow> error + 'a" where
  "getitem d k = (case map_of d k of None \<Rightarrow> Inl (KeyError k) | Some v \<Rightarrow> Inr v)"

definition recommendation_text :: "bool \<Rightarrow> dbl \<Rightarrow> dbl \<Rightarrow> dbl \<Rightarrow> string" where
  "recommendation_text is_optimal composite_score' staffing_efficiency_ratio' utilization_rate' =
     ''Based on a Composite Score of '' @ fmt2 composite_score'
     @ '', a Staffing Efficiency Ratio of '' @ fmt2 staffing_efficiency_ratio'
     @ '', and a Utilization Rate of '' @ fmt2 utilization_rate'
     @ (if is_optimal
        then ''%, the team's scheduling is optimal. ''
             @ ''The recommendation is to maintain the current workforce distribution.''
        else ''%, the team's scheduling requires adjustments. ''
             @ ''Consider reassigning workforce, adjusting shift timings, or enhancing remote infrastructure.'')"

definition calculate_metrics :: "(string \<Rightarrow> dbl option) \<Rightarrow> team \<Rightarrow> error + metrics" where
  "calculate_metrics pf t =
     bnd (convert_numeric pf t) (\<lambda>team_data.
     bnd (getitem team_data ''queries_per_day'') (\<lambda>queries_per_day'.
     bnd (getitem team_data ''average_query_time'') (\<lambda>avg_query_time.
     bnd (getitem team_data ''current_staff'') (\<lambda>current_staff'.
     let workload_step1' = fmul queries_per_day' avg_query_time in
     bnd (fdiv workload_step1' current_staff') (\<lambda>workload_per_agent'.
     bnd (getitem team_data ''shift_hours'') (\<lambda>shift_hours'.
     bnd (getitem team_data ''available_capacity'') (\<lambda>available_capacity'.
     let capacity_step1' = fmul shift_hours' (lit 60) in
     bnd (fdiv available_capacity' (lit 100)) (\<lambda>capacity_fraction.
     let agent_capacity' = fmul capacity_step1' capacity_fraction in
     bnd (fdiv workload_per_agent' agent_capacity') (\<lambda>utilization_ratio.
     let utilization_rate' = fmul utilization_ratio (lit 100) in
     bnd (getitem team_data ''remote_infrastructure_efficiency'') (\<lambda>remote_efficiency.
     bnd (fdiv (fsub agent_capacity' workload_per_agent') agent_capacity') (\<lambda>surplus_ratio.
     let capacity_surplus_percentage' = fmul surplus_ratio (lit 100);
         weighted_surplus' = fmul capacity_surplus_percentage' (lit (5 / 10));
         weighted_efficiency' = fmul remote_efficiency (lit (3 / 10));
         weighted_utilization' = fmul (fsub (lit 100) utilization_rate') (lit (2 / 10));
         composite_score' = fadd (fadd weighted_surplus' weighted_efficiency') weighted_utilization' in
     bnd (fdiv (fmul queries_per_day' avg_query_time) agent_capacity') (\<lambda>required_staff'.
     bnd (fdiv current_staff' required_staff') (\<lambda>staffing_efficiency_ratio'.
     let is_optimal = (fle (lit 60) composite_score'
                       \<and> fle (lit (9 / 10)) staffing_efficiency_ratio'
                       \<and> fle staffing_efficiency_ratio' (lit (11 / 10))
                       \<and> fle utilization_rate' (lit 90));
         status' = (if is_optimal then ''Optimal'' else ''Needs Adjustment'');
         recommendation' = recommendation_text is_optimal composite_score'
                            staffing_efficiency_ratio' utilization_rate' in
     bnd (getitem t ''team_id'') (\<lambda>team_id'.
     Inr \<lparr> team_id = team_id',
           current_staff = current_staff',
           queries_per_day = queries_per_day',
           average_query_time = avg_query_time,
           shift_hours = shift_hours',
           available_capacity = available_capacity',
           remote_infrastructure_efficiency = remote_efficiency,
           workload_step1 = workload_step1',
           workload_per_agent = workload_per_agent',
           capacity_step1 = capacity_step1',
           agent_capacity = agent_capacity',
           utilization_rate = utilization_rate',
           capacity_surplus_percentage = capacity_surplus_percentage',
           weighted_surplus = weighted_surplus',
           weighted_efficiency = weighted_efficiency',
           weighted_utilization = weighted_utilization',
           composite_score = composite_score',
           required_staff = required_staff',
           staffing_efficiency_ratio = staffing_efficiency_ratio',
           status = status',
           recommendation = recommendation' \<rparr>))))))))))))))"

section \<open>\<open>generate_report\<close> and \<open>process_input\<close>\<close>

text \<open>
  \<open>[self.calculate_metrics(team) for team in teams]\<close>. Beside the results (or the first
  exception) the function returns the records on which \<open>calculate_metrics\<close> was invoked,
  in order.
\<close>

fun team_results ::
  "(string \<Rightarrow> dbl option) \<Rightarrow> team list \<Rightarrow> (error + metrics list) \<times> team list" where
  "team_results pf [] = (Inr [], [])"
| "team_results pf (t # ts) =
     (case calculate_metrics pf t of
        Inl e \<Rightarrow> (Inl e, [t])
      | Inr m \<Rightarrow>
        (case team_results pf ts of
           (r, calls) \<Rightarrow> (bnd r (\<lambda>ms. Inr (m # ms)), t # calls)))"

text \<open>
  \<open>generate_report\<close> computes the metrics of every team and then assembles the text of
  the report from them. The assembly is number formatting and fixed text; it is the
  parameter \<open>render\<close>.
\<close>

definition generate_report ::
  "(team list \<Rightarrow> metrics list \<Rightarrow> string) \<Rightarrow> (string \<Rightarrow> dbl option) \<Rightarrow> team list
   \<Rightarrow> (error + string) \<times> team list" where
  "generate_report render pf teams =
     (case team_results pf teams of
        (r, calls) \<Rightarrow> (bnd r (\<lambda>results. Inr (render teams results)), calls))"

text \<open>
  \<open>process_input\<close>. \<open>parse_data\<close> rests on the \<open>json\<close> and \<open>csv\<close> modules; it is the
  parameter \<open>parse\<close>, which gives \<open>Inl\<close> of the error message where \<open>parse_data\<close> returns
  \<open>(None, error)\<close> and \<open>Inr\<close> of the records where it returns \<open>(teams, None)\<close>. The second
  component of the result lists the invocations of \<open>calculate_metrics\<close>.
\<close>

definition process_input ::
  "(string \<Rightarrow> string + team list) \<Rightarrow> (team list \<Rightarrow> metrics list \<Rightarrow> string)
   \<Rightarrow> (string \<Rightarrow> dbl option) \<Rightarrow> string \<Rightarrow> (error + string) \<times> team list" where
  "process_input parse render pf input_data =
     (case parse input_data of
        Inl error \<Rightarrow> (Inr error, [])
      | Inr teams \<Rightarrow>
        (case validate_data pf teams of
           Inl e \<Rightarrow> (Inl e, [])
         | Inr (validation_report, validation_errors) \<Rightarrow>
           (let validation_report_str = join_lines validation_report
            in if validation_errors \<noteq> [] then (Inr validation_report_str, [])
               else (case generate_report render pf teams of
                       (r, calls) \<Rightarrow>
                         (bnd r (\<lambda>final_report.
                            Inr (validation_report_str @ ''\<newline>\<newline>'' @ final_report)),
                          calls)))))"

section \<open>Notions used in the statements\<close>

text \<open>\<open>float(team[k])\<close>: the float that both functions read from a field of a record.\<close>

definition float_field :: "(string \<Rightarrow> dbl option) \<Rightarrow> team \<Rightarrow> string \<Rightarrow> error + dbl" where
  "float_field pf t k = bnd (getitem t k) (to_float pf)"

text \<open>The values of a numeric field for which \<open>validate_data\<close> appends no range error.\<close>

definition in_range :: "string \<Rightarrow> dbl \<Rightarrow> bool" where
  "in_range field value =
     (if field \<in> set [''current_staff'', ''queries_per_day'']
      then is_integer value \<and> \<not> fle value (lit 0)
      else if field \<in> set [''average_query_time'', ''shift_hours'']
      then \<not> fle value (lit 0)
      else if field \<in> set percentage_fields
      then \<not> flt value (lit 0) \<and> \<not> flt (lit 100) value
      else True)"

text \<open>
  The twelve formulas of the specification (section 4.2), read on the fields of a result,
  with Python's arithmetic: a division is defined only for a non-zero divisor.
\<close>

definition spec_formula_chain :: "metrics \<Rightarrow> bool" where
  "spec_formula_chain m \<longleftrightarrow>
     workload_step1 m = fmul (queries_per_day m) (average_query_time m)
   \<and> fdiv (workload_step1 m) (current_staff m) = Inr (workload_per_agent m)
   \<and> capacity_step1 m = fmul (shift_hours m) (lit 60)
   \<and> bnd (fdiv (available_capacity m) (lit 100)) (\<lambda>r. Inr (fmul (capacity_step1 m) r))
       = Inr (agent_capacity m)
   \<and> bnd (fdiv (workload_per_agent m) (agent_capacity m)) (\<lambda>r. Inr (fmul r (lit 100)))
       = Inr (utilization_rate m)
   \<and> bnd (fdiv (fsub (agent_capacity m) (workload_per_agent m)) (agent_capacity m))
         (\<lambda>r. Inr (fmul r (lit 100)))
       = Inr (capacity_surplus_percentage m)
   \<and> weighted_surplus m = fmul (capacity_surplus_percentage m) (lit (5 / 10))
   \<and> weighted_efficiency m = fmul (remote_infrastructure_efficiency m) (lit (3 / 10))
   \<and> weighted_utilization m = fmul (fsub (lit 100) (utilization_rate m)) (lit (2 / 10))
   \<and> composite_score m
       = fadd (fadd (weighted_surplus m) (weighted_efficiency m)) (weighted_utilization m)
   \<and> fdiv (fmul (queries_per_day m) (average_query_time m)) (agent_capacity m)
       = Inr (required_staff m)
   \<and> fdiv (current_staff m) (required_staff m) = Inr (staffing_efficiency_ratio m)"

text \<open>
  The two divisors of the chain that the range checks do not keep away from zero, as the
  formulas compute them from the inputs: \<open>agent_capacity\<close> from \<open>shift_hours\<close> and
  \<open>available_capacity\<close>, and \<open>required_staff\<close> from these and \<open>queries_per_day\<close>,
  \<open>average_query_time\<close>. \<open>nonzero r\<close>: the value \<open>r\<close> exists and is not a zero.
\<close>

definition agent_capacity_of :: "dbl \<Rightarrow> dbl \<Rightarrow> error + dbl" where
  "agent_capacity_of sh av = bnd (fdiv av (lit 100)) (\<lambda>r. Inr (fmul (fmul sh (lit 60)) r))"

definition required_staff_of :: "dbl \<Rightarrow> dbl \<Rightarrow> dbl \<Rightarrow> dbl \<Rightarrow> error + dbl" where
  "required_staff_of q a sh av = bnd (agent_capacity_of sh av) (fdiv (fmul q a))"

definition nonzero :: "error + dbl \<Rightarrow> bool" where
  "nonzero r = (case r of Inl e \<Rightarrow> False | Inr d \<Rightarrow> \<not> is_zero d)"

text \<open>The decision rule of the specification: all three thresholds hold.\<close>

definition spec_is_optimal :: "metrics \<Rightarrow> bool" where
  "spec_is_optimal m \<longleftrightarrow>
     fle (lit 60) (composite_score m)
   \<and> fle (lit (9 / 10)) (staffing_efficiency_ratio m)
   \<and> fle (staffing_efficiency_ratio m) (lit (11 / 10))
   \<and> fle (utilization_rate m) (lit 90)"

text \<open>\<open>x \<approx> r\<close> for a value quoted with two decimals: \<open>x\<close> is finite and within 0.005 of \<open>r\<close>.\<close>

definition approx2 :: "dbl \<Rightarrow> rat \<Rightarrow> bool" where
  "approx2 x r \<longleftrightarrow> is_finite x \<and> \<bar>val x - r\<bar> \<le> 5 / 1000"


section \<open>Python's \<open>float\<close> on ASCII text\<close>

text \<open>
  An instance of the parameter \<open>pf\<close>, for the examples: \<open>float(s)\<close> for a string \<open>s\<close> of
  ASCII characters. Surrounding whitespace (space, tab, line feed, vertical tab, form
  feed, carriage return) is stripped; an optional sign is followed by
  \<open>inf\<close>, \<open>infinity\<close> or \<open>nan\<close> in any case, or by a decimal number with optional
  fraction and exponent, whose digits may be grouped by single underscores. The value is
  rounded to the nearest float. Any other text raises \<open>ValueError\<close>.
\<close>

definition is_space :: "char \<Rightarrow> bool" where
  "is_space c = (c \<in> set [CHR '' '', CHR 0x09, CHR 0x0A, CHR 0x0B, CHR 0x0C, CHR 0x0D])"

definition strip :: "string \<Rightarrow> string" where
  "strip s = rev (dropWhile is_space (rev (dropWhile is_space s)))"

definition digit_of :: "char \<Rightarrow> nat option" where
  "digit_of c = map_of (zip ''0123456789'' [0 ..< 10]) c"

definition lower :: "char \<Rightarrow> char" where
  "lower c = (case map_of (zip ''ABCDEFGHIJKLMNOPQRSTUVWXYZ'' ''abcdefghijklmnopqrstuvwxyz'') c of
                None \<Rightarrow> c | Some l \<Rightarrow> l)"

text \<open>
  \<open>digitpart acc cnt s\<close> reads digits from \<open>s\<close>: the number read (continuing \<open>acc\<close>), how
  many digits it has (continuing \<open>cnt\<close>), and the rest of the text.
\<close>

fun digitpart :: "nat \<Rightarrow> nat \<Rightarrow> string \<Rightarrow> nat \<times> nat \<times> string" where
  "digitpart acc cnt [] = (acc, cnt, [])"
| "digitpart acc cnt (c # cs) =
     (case digit_of c of
        Some d \<Rightarrow> digitpart (acc * 10 + d) (cnt + 1) cs
      | None \<Rightarrow>
        if c = CHR ''_'' \<and> 0 < cnt \<and> (case cs of [] \<Rightarrow> False | c' # _ \<Rightarrow> digit_of c' \<noteq> None)
        then digitpart acc cnt cs
        else (acc, cnt, c # cs))"

definition split_sign :: "string \<Rightarrow> bool \<times> string" where
  "split_sign s =
     (case s of
        [] \<Rightarrow> (False, s)
      | c # r \<Rightarrow> if c = CHR ''-'' then (True, r) else if c = CHR ''+'' then (False, r) else (False, s))"

text \<open>The exponent part: \<open>None\<close> if malformed, otherwise the exponent (0 if there is none).\<close>

definition exponent_part :: "string \<Rightarrow> int option" where
  "exponent_part s =
     (case s of
        [] \<Rightarrow> Some 0
      | c # r \<Rightarrow>
        if c = CHR ''e'' \<or> c = CHR ''E''
        then (case split_sign r of
                (neg, u) \<Rightarrow>
                  (case digitpart 0 0 u of
                     (e, n, rest) \<Rightarrow>
                       if 0 < n \<and> rest = [] then Some (if neg then - int e else int e)
                       else None))
        else None)"

definition float_of_string :: "string \<Rightarrow> dbl option" where
  "float_of_string s =
     (case split_sign (strip s) of
        (neg, u) \<Rightarrow>
          if map lower u = ''inf'' \<or> map lower u = ''infinity'' then Some (signed_inf neg)
          else if map lower u = ''nan'' then Some NaN
          else
            (case digitpart 0 0 u of
               (ip, ni, r1) \<Rightarrow>
                 (case (case r1 of
                          [] \<Rightarrow> (0, 0, r1)
                        | c # r \<Rightarrow> if c = CHR ''.'' then digitpart 0 0 r else (0, 0, r1)) of
                    (fp, nf, r2) \<Rightarrow>
                      if ni + nf = 0 then None
                      else
                        (case exponent_part r2 of
                           None \<Rightarrow> None
                         | Some e \<Rightarrow>
                           (let m = of_nat ip + of_nat fp / 10 ^ nf;
                                x = (if 0 \<le> e then m * 10 ^ nat e else m / 10 ^ nat (- e))
                            in Some (round_dbl neg (if neg then - x else x)))))))"

section \<open>Example inputs\<close>

text \<open>
  Instances of the parameters \<open>parse\<close> and \<open>render\<close>: a \<open>parse_data\<close> that delivers given
  records, and a rendering that lists the status of every team.
\<close>

definition parsed_as :: "team list \<Rightarrow> string \<Rightarrow> string + team list" where
  "parsed_as teams input_data = Inr teams"

definition status_report :: "team list \<Rightarrow> metrics list \<Rightarrow> string" where
  "status_report teams results = join_lines (map status results)"

text \<open>The first team of the sample data in \<open>main\<close>, as \<open>json.loads\<close> delivers it.\<close>

definition team_omega :: team where
  "team_omega =
     [(''team_id'', StrV ''TeamOmega''),
      (''current_staff'', IntV 10),
      (''queries_per_day'', IntV 150),
      (''average_query_time'', FloatV (Fin 3)),
      (''shift_hours'', IntV 8),
      (''available_capacity'', IntV 70),
      (''remote_infrastructure_efficiency'', IntV 80)]"

text \<open>The same figures with a staff of seven.\<close>

definition team_seven :: team where
  "team_seven =
     [(''team_id'', StrV ''TeamSeven''),
      (''current_staff'', IntV 7),
      (''queries_per_day'', IntV 150),
      (''average_query_time'', FloatV (Fin 3)),
      (''shift_hours'', IntV 8),
      (''available_capacity'', IntV 70),
      (''remote_infrastructure_efficiency'', IntV 80)]"

text \<open>A CSV input of one row with no available capacity, and its record.\<close>

definition csv_header :: string where
  "csv_header = ''team_id,current_staff,queries_per_day,average_query_time,shift_hours,''
     @ ''available_capacity,remote_infrastructure_efficiency''"

definition zero_csv :: string where
  "zero_csv = csv_header @ ''\<newline>TeamZero,10,150,3.0,8,0,80''"

definition team_zero :: team where
  "team_zero =
     [(''team_id'', StrV ''TeamZero''),
      (''current_staff'', StrV ''10''),
      (''queries_per_day'', StrV ''150''),
      (''average_query_time'', StrV ''3.0''),
      (''shift_hours'', StrV ''8''),
      (''available_capacity'', StrV ''0''),
      (''remote_infrastructure_efficiency'', StrV ''80'')]"

text \<open>
  The row \<open>TeamInf,10,150,3.0,inf,0,80\<close> of a CSV input, as \<open>csv.DictReader\<close> delivers it:
  every value is a string.
\<close>

definition team_inf :: team where
  "team_inf =
     [(''team_id'', StrV ''TeamInf''),
      (''current_staff'', StrV ''10''),
      (''queries_per_day'', StrV ''150''),
      (''average_query_time'', StrV ''3.0''),
      (''shift_hours'', StrV ''inf''),
      (''available_capacity'', StrV ''0''),
      (''remote_infrastructure_efficiency'', StrV ''80'')]"

text \<open>The JSON object of the sample data with \<open>"current_staff": null\<close>.\<close>

definition team_null :: team where
  "team_null =
     [(''team_id'', StrV ''TeamOmega''),
      (''current_staff'', NoneV),
      (''queries_per_day'', IntV 150),
      (''average_query_time'', FloatV (Fin 3)),
      (''shift_hours'', IntV 8),
      (''available_capacity'', IntV 70),
      (''remote_infrastructure_efficiency'', IntV 80)]"

text \<open>
  A CSV input without the column \<open>shift_hours\<close> and with the staff spelled out, and the
  record of its row.
\<close>

definition bad_csv :: string where
  "bad_csv = ''team_id,current_staff,queries_per_day,average_query_time,''
     @ ''available_capacity,remote_infrastructure_efficiency''
     @ ''\<newline>TeamBad,ten,150,3.0,70,80''"

definition team_bad :: team where
  "team_bad =
     [(''team_id'', StrV ''TeamBad''),
      (''current_staff'', StrV ''ten''),
      (''queries_per_day'', StrV ''150''),
      (''average_query_time'', StrV ''3.0''),
      (''available_capacity'', StrV ''70''),
      (''remote_infrastructure_efficiency'', StrV ''80'')]"

text \<open>The JSON text \<open>{"teams": []}\<close>, which \<open>parse_data\<close> parses to the empty batch.\<close>

definition empty_json :: string where
  "empty_json = ''{'' @ [CHR 0x22] @ ''teams'' @ [CHR 0x22] @ '': []}''"

text \<open>The report of the empty batch.\<close>

definition empty_report :: "string list" where
  "empty_report =
     [''# Data Validation Report'', ''## Data Structure Check:'',
      '' - Number of teams: 0'', '' - Number of fields per record: 0'']"

text \<open>The report of a batch of one complete and valid record.\<close>

definition clean_report :: "string list" where
  "clean_report =
     [''# Data Validation Report'', ''## Data Structure Check:'',
      '' - Number of teams: 1'', '' - Number of fields per record: 7'',
      ''\<newline>## Required Fields Check:'', '' - team_id: present'',
      '' - current_staff: present'', '' - queries_per_day: present'',
      '' - average_query_time: present'', '' - shift_hours: present'',
      '' - available_capacity: present'',
      '' - remote_infrastructure_efficiency: present'',
      ''\<newline>## Data Type and Value Validation:'',
      '' - current_staff (positive integer): validated'',
      '' - queries_per_day (positive integer): validated'',
      '' - average_query_time (positive number): validated'',
      '' - shift_hours (positive number): validated'',
      '' - available_capacity (0 to 100): validated'',
      '' - remote_infrastructure_efficiency (0 to 100): validated'',
      ''\<newline>## Validation Summary:'', ''Data validation is successful!'']"

text \<open>The errors and the report of the batch \<open>[team_bad]\<close>.\<close>

definition bad_errors :: "string list" where
  "bad_errors =
     [''ERROR: Missing required field 'shift_hours' in row 1.'',
      ''ERROR: Invalid data type for 'current_staff' in row 1. Expected a numeric value.'']"

definition bad_report :: "string list" where
  "bad_report =
     [''# Data Validation Report'', ''## Data Structure Check:'',
      '' - Number of teams: 1'', '' - Number of fields per record: 6'',
      ''\<newline>## Required Fields Check:'', '' - team_id: present'',
      '' - current_staff: present'', '' - queries_per_day: present'',
      '' - average_query_time: present'', '' - shift_hours: missing'',
      '' - available_capacity: present'',
      '' - remote_infrastructure_efficiency: present'',
      ''\<newline>## Data Type and Value Validation:'',
      '' - current_staff (positive integer): validated'',
      '' - queries_per_day (positive integer): validated'',
      '' - average_query_time (positive number): validated'',
      '' - shift_hours (positive number): validated'',
      '' - available_capacity (0 to 100): validated'',
      '' - remote_infrastructure_efficiency (0 to 100): validated'',
      ''\<newline>## Validation Summary:'', ''Validation failed with the following errors:'',
      ''- ERROR: Missing required field 'shift_hours' in row 1.'',
      ''- ERROR: Invalid data type for 'current_staff' in row 1. Expected a numeric value.'',
      ''\<newline>Please correct and resubmit this data again.'']"

text \<open>The results of \<open>calculate_metrics\<close> on \<open>team_omega\<close>, \<open>team_seven\<close> and \<open>team_inf\<close>.\<close>

definition omega_metrics :: metrics where
  "omega_metrics =
     \<lparr> team_id = StrV ''TeamOmega'',
       current_staff = Fin 10,
       queries_per_day = Fin 150,
       average_query_time = Fin 3,
       shift_hours = Fin 8,
       available_capacity = Fin 70,
       remote_infrastructure_efficiency = Fin 80,
       workload_step1 = Fin 450,
       workload_per_agent = Fin 45,
       capacity_step1 = Fin 480,
       agent_capacity = Fin 336,
       utilization_rate = Fin (3769754152374857 / 281474976710656),
       capacity_surplus_percentage = Fin (3047217939836343 / 35184372088832),
       weighted_surplus = Fin (3047217939836343 / 70368744177664),
       weighted_efficiency = Fin 24,
       weighted_utilization = Fin (4875548703738149 / 281474976710656),
       composite_score = Fin (677 / 8),
       required_staff = Fin (6031606643799771 / 4503599627370496),
       staffing_efficiency_ratio = Fin (4203359652212463 / 562949953421312),
       status = ''Needs Adjustment'',
       recommendation =
         ''Based on a Composite Score of 84.62, a Staffing Efficiency Ratio of 7.47, ''
         @ ''and a Utilization Rate of 13.39%, the team's scheduling requires adjustments. ''
         @ ''Consider reassigning workforce, adjusting shift timings, or enhancing remote infrastructure.'' \<rparr>"


definition inf_metrics :: metrics where
  "inf_metrics =
     \<lparr> team_id = StrV ''TeamInf'',
       current_staff = Fin 10,
       queries_per_day = Fin 150,
       average_query_time = Fin 3,
       shift_hours = PInf,
       available_capacity = Fin 0,
       remote_infrastructure_efficiency = Fin 80,
       workload_step1 = Fin 450,
       workload_per_agent = Fin 45,
       capacity_step1 = PInf,
       agent_capacity = NaN,
       utilization_rate = NaN,
       capacity_surplus_percentage = NaN,
       weighted_surplus = NaN,
       weighted_efficiency = Fin 24,
       weighted_utilization = NaN,
       composite_score = NaN,
       required_staff = NaN,
       staffing_efficiency_ratio = NaN,
       status = ''Needs Adjustment'',
       recommendation =
         ''Based on a Composite Score of nan, a Staffing Efficiency Ratio of nan, ''
         @ ''and a Utilization Rate of nan%, the team's scheduling requires adjustments. ''
         @ ''Consider reassigning workforce, adjusting shift timings, or enhancing remote infrastructure.'' \<rparr>"


section \<open>Properties of the rounding\<close>

lemma pow2_powi: "pow2 e = 2 powi e"
  by (simp add: pow2_def power_int_def inverse_eq_divide power_one_over)

lemma pow2_pos: "0 < pow2 e"
  by (simp add: pow2_powi)

lemma pow2_add: "pow2 (a + b) = pow2 a * pow2 b"
  by (simp add: pow2_powi power_int_add)

lemma pow2_mono: "a \<le> b \<Longrightarrow> pow2 a \<le> pow2 b"
  by (simp add: pow2_powi power_int_increasing)

lemma pow2_less_iff: "pow2 a < pow2 b \<longleftrightarrow> a < b"
proof
  assume l: "pow2 a < pow2 b"
  show "a < b"
  proof (rule ccontr)
    assume "\<not> a < b"
    then have "pow2 b \<le> pow2 a" by (simp add: pow2_mono)
    with l show False by simp
  qed
next
  assume "a < b"
  then show "pow2 a < pow2 b" by (simp add: pow2_powi power_int_strict_increasing)
qed

lemma pow2_nat: "0 \<le> e \<Longrightarrow> pow2 e = 2 ^ nat e"
  by (simp add: pow2_def)

lemma ilog2_bounds:
  assumes "0 < x"
  shows "pow2 (ilog2 x) \<le> x \<and> x < pow2 (ilog2 x + 1)"
proof -
  obtain n d where q: "quotient_of x = (n, d)" by force
  have d: "0 < d" using quotient_of_denom_pos [OF q] .
  have x: "x = of_int n / of_int d" using quotient_of_div [OF q] .
  have n: "0 < n" using assms d by (simp add: x zero_less_divide_iff)
  define bn where "bn = bitlen n"
  define bd where "bd = bitlen d"
  have bn1: "1 \<le> bn" using n by (simp add: bn_def bitlen_alt_def)
  have bd1: "1 \<le> bd" using d by (simp add: bd_def bitlen_alt_def)
  have nlo: "pow2 (bn - 1) \<le> of_int n"
  proof -
    have "(2::int) ^ nat (bn - 1) \<le> n" using bitlen_bounds [OF n] by (simp add: bn_def)
    then have "(of_int ((2::int) ^ nat (bn - 1)) :: rat) \<le> of_int n" by (simp only: of_int_le_iff)
    then show ?thesis using bn1 by (simp add: pow2_nat)
  qed
  have nhi: "of_int n < pow2 bn"
  proof -
    have "n < (2::int) ^ nat bn" using bitlen_bounds [OF n] by (simp add: bn_def)
    then have "(of_int n :: rat) < of_int ((2::int) ^ nat bn)" by (simp only: of_int_less_iff)
    then show ?thesis using bn1 by (simp add: pow2_nat)
  qed
  have dlo: "pow2 (bd - 1) \<le> of_int d"
  proof -
    have "(2::int) ^ nat (bd - 1) \<le> d" using bitlen_bounds [OF d] by (simp add: bd_def)
    then have "(of_int ((2::int) ^ nat (bd - 1)) :: rat) \<le> of_int d" by (simp only: of_int_le_iff)
    then show ?thesis using bd1 by (simp add: pow2_nat)
  qed
  have dhi: "of_int d < pow2 bd"
  proof -
    have "d < (2::int) ^ nat bd" using bitlen_bounds [OF d] by (simp add: bd_def)
    then have "(of_int d :: rat) < of_int ((2::int) ^ nat bd)" by (simp only: of_int_less_iff)
    then show ?thesis using bd1 by (simp add: pow2_nat)
  qed
  have dpos: "(0::rat) < of_int d" using d by simp
  have lo: "pow2 (bn - bd - 1) \<le> x"
  proof -
    have "pow2 (bn - bd - 1) * of_int d \<le> pow2 (bn - bd - 1) * pow2 bd"
      using dhi pow2_pos [of "bn - bd - 1"] by (simp add: mult_le_cancel_left_pos)
    also have "\<dots> = pow2 (bn - 1)" by (simp add: pow2_add [symmetric])
    also have "\<dots> \<le> of_int n" by (rule nlo)
    finally show ?thesis using dpos by (simp add: x pos_le_divide_eq)
  qed
  have hi: "x < pow2 (bn - bd + 1)"
  proof -
    have "of_int n < pow2 bn" by (rule nhi)
    also have "\<dots> = pow2 (bn - bd + 1) * pow2 (bd - 1)" by (simp add: pow2_add [symmetric])
    also have "\<dots> \<le> pow2 (bn - bd + 1) * of_int d"
      using dlo pow2_pos [of "bn - bd + 1"] by (simp add: mult_le_cancel_left_pos)
    finally show ?thesis using dpos by (simp add: x pos_divide_less_eq)
  qed
  show ?thesis
  proof (cases "pow2 (bn - bd) \<le> x")
    case True
    then have "ilog2 x = bn - bd" by (simp add: ilog2_def q bn_def bd_def)
    then show ?thesis using True hi by simp
  next
    case False
    then have "ilog2 x = bn - bd - 1" by (simp add: ilog2_def q bn_def bd_def)
    then show ?thesis using False lo by simp
  qed
qed



lemma ilog2_ge_iff:
  assumes "0 < y"
  shows "pow2 k \<le> y \<longleftrightarrow> k \<le> ilog2 y"
proof
  assume "pow2 k \<le> y"
  with ilog2_bounds [OF assms] have "pow2 k < pow2 (ilog2 y + 1)" by simp
  then show "k \<le> ilog2 y" by (simp add: pow2_less_iff)
next
  assume "k \<le> ilog2 y"
  then have "pow2 k \<le> pow2 (ilog2 y)" by (rule pow2_mono)
  with ilog2_bounds [OF assms] show "pow2 k \<le> y" by simp
qed

lemma round_dbl_code [code]:
  "round_dbl neg x =
     (let y = round_fin x
      in if y \<noteq> 0 \<and> 1024 \<le> ilog2 \<bar>y\<bar> then (if 0 < y then PInf else NInf)
         else if y = 0 then (if x < 0 \<or> (x = 0 \<and> neg) then NZero else Fin 0)
         else Fin y)"
proof -
  have p: "pow2 1024 = 2 ^ 1024" by (simp add: pow2_def)
  have pp: "(0::rat) < 2 ^ 1024" by simp
  define y where "y = round_fin x"
  consider "y = 0" | "0 < y" | "y < 0" by linarith
  then show ?thesis
  proof cases
    case 1
    then show ?thesis by (simp add: round_dbl_def y_def [symmetric])
  next
    case 2
    with ilog2_ge_iff [of y 1024] have "(2 ^ 1024 \<le> y) = (1024 \<le> ilog2 \<bar>y\<bar>)" by (simp add: p)
    moreover have "\<not> y \<le> - (2 ^ 1024)" using 2 pp by linarith
    ultimately show ?thesis using 2 by (simp add: round_dbl_def y_def [symmetric])
  next
    case 3
    with ilog2_ge_iff [of "- y" 1024] have "(y \<le> - (2 ^ 1024)) = (1024 \<le> ilog2 \<bar>y\<bar>)"
      by (simp add: p) linarith
    moreover have "\<not> 2 ^ 1024 \<le> y" using 3 pp by linarith
    ultimately show ?thesis using 3 by (simp add: round_dbl_def y_def [symmetric])
  qed
qed

section \<open>Representable values\<close>
















section \<open>What a successful validation guarantees\<close>

lemma missing_rows_empty_iff:
  "missing_rows field i ts = [] \<longleftrightarrow> list_all (\<lambda>t. has_key t field) ts"
  by (induction ts arbitrary: i) auto

lemma required_fields_check_shape:
  "\<exists>lines new. required_fields_check teams fs0 (report, errors) = (report @ lines, errors @ new)
      \<and> length lines = length fs0
      \<and> (new = [] \<longrightarrow> (\<forall>f \<in> set fs0. list_all (\<lambda>t. has_key t f) teams))
      \<and> set new \<subseteq> (\<Union>f \<in> set fs0. set (missing_rows f 0 teams))"
proof (induction fs0 arbitrary: report errors)
  case Nil
  then show ?case by simp
next
  case (Cons f fs)
  show ?case
  proof (cases "list_all (\<lambda>t. has_key t f) teams")
    case True
    from Cons [of "report @ ['' - '' @ f @ '': present'']" errors]
    obtain lines new where
      "required_fields_check teams fs (report @ ['' - '' @ f @ '': present''], errors)
         = ((report @ ['' - '' @ f @ '': present'']) @ lines, errors @ new)"
      "length lines = length fs"
      "new = [] \<longrightarrow> (\<forall>f \<in> set fs. list_all (\<lambda>t. has_key t f) teams)"
      "set new \<subseteq> (\<Union>f \<in> set fs. set (missing_rows f 0 teams))"
      by blast
    with True show ?thesis
      by (intro exI [of _ "['' - '' @ f @ '': present''] @ lines"] exI [of _ new]) auto
  next
    case False
    then have ne: "missing_rows f 0 teams \<noteq> []" by (simp add: missing_rows_empty_iff)
    from Cons [of "report @ ['' - '' @ f @ '': missing'']" "errors @ missing_rows f 0 teams"]
    obtain lines new where
      "required_fields_check teams fs (report @ ['' - '' @ f @ '': missing''], errors @ missing_rows f 0 teams)
         = ((report @ ['' - '' @ f @ '': missing'']) @ lines, (errors @ missing_rows f 0 teams) @ new)"
      "length lines = length fs"
      "set new \<subseteq> (\<Union>f \<in> set fs. set (missing_rows f 0 teams))"
      by blast
    with False ne show ?thesis
      by (intro exI [of _ "['' - '' @ f @ '': missing''] @ lines"] exI [of _ "missing_rows f 0 teams @ new"]) auto
  qed
qed


lemma check_value_clean:
  assumes "check_value pf i t f errs = Inr []"
  shows "errs = [] \<and> (\<forall>v. map_of t f = Some v \<longrightarrow> (\<exists>d. to_float pf v = Inr d \<and> in_range f d))"
proof (cases "map_of t f")
  case None
  with assms show ?thesis by (simp add: check_value_def)
next
  case (Some v)
  show ?thesis
  proof (cases "to_float pf v")
    case (Inl e)
    with assms Some show ?thesis by (cases e) (simp_all add: check_value_def)
  next
    case (Inr d)
    with assms Some show ?thesis
      by (auto simp: check_value_def in_range_def split: if_splits)
  qed
qed

lemma check_fields_clean:
  "check_fields pf i t fs errs = Inr [] \<Longrightarrow>
     errs = [] \<and> (\<forall>f \<in> set fs. \<forall>v. map_of t f = Some v \<longrightarrow> (\<exists>d. to_float pf v = Inr d \<and> in_range f d))"
proof (induction fs arbitrary: errs)
  case Nil
  then show ?case by simp
next
  case (Cons f fs)
  from Cons.prems obtain errs' where
    1: "check_value pf i t f errs = Inr errs'" and 2: "check_fields pf i t fs errs' = Inr []"
    by (auto simp: bnd_def split: sum.splits)
  from Cons.IH [OF 2] have e: "errs' = []"
    and r: "\<forall>f \<in> set fs. \<forall>v. map_of t f = Some v \<longrightarrow> (\<exists>d. to_float pf v = Inr d \<and> in_range f d)"
    by simp_all
  from check_value_clean [OF 1 [unfolded e]] r show ?case by simp
qed

lemma check_teams_clean:
  "check_teams pf i ts errs = Inr [] \<Longrightarrow>
     errs = [] \<and> (\<forall>t \<in> set ts. \<forall>f \<in> set numeric_fields. \<forall>v. map_of t f = Some v \<longrightarrow>
                     (\<exists>d. to_float pf v = Inr d \<and> in_range f d))"
proof (induction ts arbitrary: i errs)
  case Nil
  then show ?case by simp
next
  case (Cons t ts)
  from Cons.prems obtain errs' where
    1: "check_fields pf i t numeric_fields errs = Inr errs'"
    and 2: "check_teams pf (i + 1) ts errs' = Inr []"
    by (auto simp: bnd_def split: sum.splits)
  from Cons.IH [OF 2] have e: "errs' = []"
    and r: "\<forall>t \<in> set ts. \<forall>f \<in> set numeric_fields. \<forall>v. map_of t f = Some v \<longrightarrow>
                     (\<exists>d. to_float pf v = Inr d \<and> in_range f d)"
    by simp_all
  from check_fields_clean [OF 1 [unfolded e]] r show ?case by simp
qed

text \<open>What the validator returns for a non-empty batch, in terms of its two passes.\<close>

lemma validate_data_nonempty:
  assumes "validate_data pf teams = Inr (report, errors)" and "teams \<noteq> []"
  shows "\<exists>pre errs1.
           length pre = 12
         \<and> (errs1 = [] \<longrightarrow> (\<forall>f \<in> set valid_fields. list_all (\<lambda>t. has_key t f) teams))
         \<and> set errs1 \<subseteq> (\<Union>f \<in> set valid_fields. set (missing_rows f 0 teams))
         \<and> check_teams pf 0 teams errs1 = Inr errors
         \<and> report =
             pre @ [''\<newline>## Data Type and Value Validation:'']
             @ map (rollup_line ''positive integer'' errors) [''current_staff'', ''queries_per_day'']
             @ map (rollup_line ''positive number'' errors) [''average_query_time'', ''shift_hours'']
             @ map (rollup_line ''0 to 100'' errors)
                 [''available_capacity'', ''remote_infrastructure_efficiency'']
             @ [''\<newline>## Validation Summary:'']
             @ validation_summary errors"
proof -
  from assms(2) obtain t0 ts where teams: "teams = t0 # ts" by (cases teams) auto
  define R0 where "R0 = ([''# Data Validation Report'', ''## Data Structure Check:'',
               '' - Number of teams: '' @ str_nat (length (t0 # ts))]
               @ ['' - Number of fields per record: '' @ str_nat (dict_len t0)])
               @ [''\<newline>## Required Fields Check:'']"
  have lR0: "length R0 = 5" by (simp add: R0_def)
  from required_fields_check_shape [of "t0 # ts" valid_fields R0 "[]"]
  obtain lines new where
    rfc: "required_fields_check (t0 # ts) valid_fields (R0, []) = (R0 @ lines, new)"
    and len: "length lines = length valid_fields"
    and pres: "new = [] \<longrightarrow> (\<forall>f \<in> set valid_fields. list_all (\<lambda>t. has_key t f) (t0 # ts))"
    and sub: "set new \<subseteq> (\<Union>f \<in> set valid_fields. set (missing_rows f 0 (t0 # ts)))"
    by auto
  have vd: "validate_data pf (t0 # ts) =
     (case required_fields_check (t0 # ts) valid_fields (R0, []) of
        (report, errors) \<Rightarrow>
          bnd (check_teams pf 0 (t0 # ts) errors) (\<lambda>errors.
            Inr ((((((report @ [''\<newline>## Data Type and Value Validation:''])
                   @ map (rollup_line ''positive integer'' errors) (take 2 positive_fields))
                   @ map (rollup_line ''positive number'' errors) (drop 2 positive_fields))
                   @ map (rollup_line ''0 to 100'' errors) percentage_fields)
                   @ [''\<newline>## Validation Summary:''])
                   @ validation_summary errors, errors)))"
    unfolding validate_data_def Let_def R0_def by (simp only: list.case)
  from assms(1) have "bnd (check_teams pf 0 (t0 # ts) new) (\<lambda>errors.
            Inr ((((((R0 @ lines @ [''\<newline>## Data Type and Value Validation:''])
                   @ map (rollup_line ''positive integer'' errors) (take 2 positive_fields))
                   @ map (rollup_line ''positive number'' errors) (drop 2 positive_fields))
                   @ map (rollup_line ''0 to 100'' errors) percentage_fields)
                   @ [''\<newline>## Validation Summary:''])
                   @ validation_summary errors, errors)) = Inr (report, errors)"
    unfolding teams vd rfc by simp
  then have ct: "check_teams pf 0 (t0 # ts) new = Inr errors"
    and rep: "report = (R0 @ lines) @ [''\<newline>## Data Type and Value Validation:'']
             @ map (rollup_line ''positive integer'' errors) [''current_staff'', ''queries_per_day'']
             @ map (rollup_line ''positive number'' errors) [''average_query_time'', ''shift_hours'']
             @ map (rollup_line ''0 to 100'' errors)
                 [''available_capacity'', ''remote_infrastructure_efficiency'']
             @ [''\<newline>## Validation Summary:'']
             @ validation_summary errors"
    by (auto simp: bnd_def positive_fields_def percentage_fields_def split: sum.splits)
  have l12: "length (R0 @ lines) = 12" using len lR0 by (simp add: valid_fields_def)
  show ?thesis
    using l12 pres sub ct rep unfolding teams
    by (intro exI [of _ "R0 @ lines"] exI [of _ new]) simp
qed

lemma validated_fields:
  assumes "validate_data pf teams = Inr (report, [])" and "t \<in> set teams"
  shows "(\<forall>f \<in> set valid_fields. has_key t f)
       \<and> (\<forall>f \<in> set numeric_fields. \<forall>v. map_of t f = Some v \<longrightarrow>
             (\<exists>d. to_float pf v = Inr d \<and> in_range f d))"
proof -
  from assms(2) have ne: "teams \<noteq> []" by auto
  from validate_data_nonempty [OF assms(1) ne] obtain errs1 where
    pres: "errs1 = [] \<longrightarrow> (\<forall>f \<in> set valid_fields. list_all (\<lambda>t. has_key t f) teams)"
    and ct: "check_teams pf 0 teams errs1 = Inr []"
    by auto
  from check_teams_clean [OF ct] pres assms(2) show ?thesis
    by (auto simp: list_all_iff)
qed

section \<open>The error messages\<close>

lemma is_substring_sublist: "is_substring p s \<longleftrightarrow> sublist p s"
  by (induction s) (simp_all add: sublist_Cons_right)

lemma is_substring_absent_head:
  "c \<notin> set s \<Longrightarrow> \<not> is_substring (c # p) s"
  by (induction s) auto

lemma str_nat_digits: "set (str_nat n) \<subseteq> set ''0123456789''"
proof (induction n rule: str_nat.induct)
  case (1 n)
  have d: "\<And>k. k < 10 \<Longrightarrow> ''0123456789'' ! k \<in> set ''0123456789''"
    by (rule nth_mem) simp
  show ?case
  proof (cases "n < 10")
    case True
    with d [of n] show ?thesis by (subst str_nat.simps) simp
  next
    case False
    with 1 have "set (str_nat (n div 10)) \<subseteq> set ''0123456789''" by simp
    moreover have "''0123456789'' ! (n mod 10) \<in> set ''0123456789''" by (rule d) simp
    ultimately show ?thesis using False by (subst str_nat.simps) simp
  qed
qed

lemma no_I_in_str_nat: "CHR ''I'' \<notin> set (str_nat n)"
  using str_nat_digits [of n] by auto

text \<open>
  Which messages contain \<open>Invalid value for 'f'\<close>, for a numeric field \<open>f\<close>: no message
  about a missing field, no message about a data type, and the messages about a value of
  the field \<open>f\<close> itself.
\<close>

lemma missing_message_no_needle:
  "\<forall>f \<in> set numeric_fields. \<forall>g \<in> set valid_fields.
     \<not> is_substring (''Invalid value for '' @ apos @ f @ apos) (missing_message g n)"
  by (simp add: missing_message_def numeric_fields_def valid_fields_def
        is_substring_absent_head no_I_in_str_nat)

lemma type_message_no_needle:
  "\<forall>f \<in> set numeric_fields. \<forall>g \<in> set numeric_fields.
     \<not> is_substring (''Invalid value for '' @ apos @ f @ apos) (type_message g n)"
  by (simp add: type_message_def numeric_fields_def is_substring_absent_head no_I_in_str_nat)

lemma value_message_needle:
  "CHR ''I'' \<notin> set expected \<Longrightarrow>
   \<forall>f \<in> set numeric_fields. \<forall>g \<in> set numeric_fields.
     is_substring (''Invalid value for '' @ apos @ f @ apos) (value_message g n expected)
     \<longleftrightarrow> f = g"
  by (simp add: value_message_def numeric_fields_def is_substring_absent_head no_I_in_str_nat)

text \<open>Where the entries of the error list come from.\<close>

lemma missing_rows_elems:
  "e \<in> set (missing_rows g i ts) \<Longrightarrow> \<exists>n. e = missing_message g n"
  by (induction ts arbitrary: i) (auto split: if_splits)

lemma check_value_errors:
  assumes "check_value pf i t g errs = Inr errs'" and "e \<in> set errs'"
  shows "e \<in> set errs
       \<or> e = type_message g (i + 1)
       \<or> ((\<exists>v d. map_of t g = Some v \<and> to_float pf v = Inr d)
           \<and> (\<exists>expected. CHR ''I'' \<notin> set expected \<and> e = value_message g (i + 1) expected))"
proof (cases "map_of t g")
  case None
  with assms show ?thesis by (simp add: check_value_def)
next
  case (Some v)
  show ?thesis
  proof (cases "to_float pf v")
    case (Inl x)
    with assms Some show ?thesis by (cases x) (auto simp: check_value_def)
  next
    case (Inr d)
    have s: "CHR ''I'' \<notin> set ''positive integer''" "CHR ''I'' \<notin> set ''positive number''"
      "CHR ''I'' \<notin> set ''value between 0 and 100''"
      by simp_all
    define c1 where "c1 \<longleftrightarrow> g \<in> set [''current_staff'', ''queries_per_day'']"
    define c2 where "c2 \<longleftrightarrow> g \<in> set [''average_query_time'', ''shift_hours'']"
    define c3 where "c3 \<longleftrightarrow> g \<in> set percentage_fields"
    define m1 where "m1 = value_message g (i + 1) ''positive integer''"
    define m2 where "m2 = value_message g (i + 1) ''positive number''"
    define m3 where "m3 = value_message g (i + 1) ''value between 0 and 100''"
    from assms(1) have "errs' =
        (if c1 then (if \<not> is_integer d \<or> fle d (lit 0) then errs @ [m1] else errs)
         else if c2 then (if fle d (lit 0) then errs @ [m2] else errs)
         else if c3 then (if flt d (lit 0) \<or> flt (lit 100) d then errs @ [m3] else errs)
         else errs)"
      unfolding check_value_def c1_def c2_def c3_def m1_def m2_def m3_def by (simp add: Some Inr)
    with assms(2) consider "e \<in> set errs" | "e = m1" | "e = m2" | "e = m3"
      by (auto split: if_splits)
    then consider "e \<in> set errs"
      | "e = value_message g (i + 1) ''positive integer''"
      | "e = value_message g (i + 1) ''positive number''"
      | "e = value_message g (i + 1) ''value between 0 and 100''"
      unfolding m1_def m2_def m3_def by blast
    then show ?thesis
    proof cases
      case 1
      then show ?thesis by simp
    next
      case 2
      with Some Inr s(1) show ?thesis by blast
    next
      case 3
      with Some Inr s(2) show ?thesis by blast
    next
      case 4
      with Some Inr s(3) show ?thesis by blast
    qed
  qed
qed

lemma check_fields_errors:
  "check_fields pf i t gs errs = Inr errs' \<Longrightarrow> e \<in> set errs' \<Longrightarrow>
     e \<in> set errs
     \<or> (\<exists>g \<in> set gs.
           e = type_message g (i + 1)
         \<or> ((\<exists>v d. map_of t g = Some v \<and> to_float pf v = Inr d)
             \<and> (\<exists>expected. CHR ''I'' \<notin> set expected \<and> e = value_message g (i + 1) expected)))"
proof (induction gs arbitrary: errs)
  case Nil
  then show ?case by simp
next
  case (Cons g gs)
  from Cons.prems(1) obtain mid where
    1: "check_value pf i t g errs = Inr mid" and 2: "check_fields pf i t gs mid = Inr errs'"
    by (auto simp: bnd_def split: sum.splits)
  from Cons.IH [OF 2 Cons.prems(2)] show ?case
  proof
    assume "e \<in> set mid"
    from check_value_errors [OF 1 this] show ?thesis by auto
  next
    assume "\<exists>g \<in> set gs.
           e = type_message g (i + 1)
         \<or> ((\<exists>v d. map_of t g = Some v \<and> to_float pf v = Inr d)
             \<and> (\<exists>expected. CHR ''I'' \<notin> set expected \<and> e = value_message g (i + 1) expected))"
    then show ?thesis by auto
  qed
qed

lemma check_teams_errors:
  "check_teams pf i ts errs = Inr errs' \<Longrightarrow> e \<in> set errs' \<Longrightarrow>
     e \<in> set errs
     \<or> (\<exists>t \<in> set ts. \<exists>g \<in> set numeric_fields. \<exists>n.
           e = type_message g n
         \<or> ((\<exists>v d. map_of t g = Some v \<and> to_float pf v = Inr d)
             \<and> (\<exists>expected. CHR ''I'' \<notin> set expected \<and> e = value_message g n expected)))"
proof (induction ts arbitrary: i errs)
  case Nil
  then show ?case by simp
next
  case (Cons t ts)
  from Cons.prems(1) obtain mid where
    1: "check_fields pf i t numeric_fields errs = Inr mid"
    and 2: "check_teams pf (i + 1) ts mid = Inr errs'"
    by (auto simp: bnd_def split: sum.splits)
  from Cons.IH [OF 2 Cons.prems(2)] show ?case
  proof
    assume "e \<in> set mid"
    from check_fields_errors [OF 1 this] show ?thesis by (simp; blast)
  next
    assume "\<exists>t \<in> set ts. \<exists>g \<in> set numeric_fields. \<exists>n.
           e = type_message g n
         \<or> ((\<exists>v d. map_of t g = Some v \<and> to_float pf v = Inr d)
             \<and> (\<exists>expected. CHR ''I'' \<notin> set expected \<and> e = value_message g n expected))"
    then show ?thesis by (simp; blast)
  qed
qed

text \<open>
  A numeric field that no row of the batch holds with a convertible value gets no entry
  containing \<open>Invalid value for\<close> with its name.
\<close>

lemma no_value_error:
  assumes v: "validate_data pf teams = Inr (report, errors)" and ne: "teams \<noteq> []"
    and f: "f \<in> set numeric_fields"
    and u: "\<forall>t \<in> set teams. \<forall>v. map_of t f = Some v \<longrightarrow> to_float pf v = Inl ValueError"
    and e: "e \<in> set errors"
  shows "\<not> is_substring (''Invalid value for '' @ apos @ f @ apos) e"
proof -
  from validate_data_nonempty [OF v ne] obtain errs1 where
    sub: "set errs1 \<subseteq> (\<Union>g \<in> set valid_fields. set (missing_rows g 0 teams))"
    and ct: "check_teams pf 0 teams errs1 = Inr errors"
    by blast
  from check_teams_errors [OF ct e]
  consider "e \<in> set errs1"
    | t g n where "t \<in> set teams" "g \<in> set numeric_fields" "e = type_message g n"
    | t g n v d expected where "t \<in> set teams" "g \<in> set numeric_fields"
        "map_of t g = Some v" "to_float pf v = Inr d" "CHR ''I'' \<notin> set expected"
        "e = value_message g n expected"
    by blast
  then show ?thesis
  proof cases
    case 1
    with sub obtain g where g: "g \<in> set valid_fields" "e \<in> set (missing_rows g 0 teams)" by blast
    from missing_rows_elems [OF g(2)] obtain n where "e = missing_message g n" by blast
    with missing_message_no_needle [of n] f g(1) show ?thesis by blast
  next
    case 2
    with type_message_no_needle [of n] f show ?thesis by blast
  next
    case 3
    show ?thesis
    proof
      assume "is_substring (''Invalid value for '' @ apos @ f @ apos) e"
      with value_message_needle [OF 3(5), of n] f 3(2,6) have "f = g" by blast
      with u 3(1,3,4) show False by auto
    qed
  qed
qed

section \<open>The metrics of a validated record\<close>

lemma lit_0: "lit 0 = Fin 0"
  by (simp add: lit_def round_dbl_def round_fin_def)

lemma lit_100: "lit 100 = Fin 100"
  by code_simp

lemma positive_not_zero: "\<not> fle d (lit 0) \<Longrightarrow> \<not> is_zero d"
  by (cases d) (auto simp: lit_0)

lemma fdiv_Inr: "\<not> is_zero y \<Longrightarrow> \<exists>z. fdiv x y = Inr z"
  by (simp add: fdiv_def)

lemma fdiv_Inl: "is_zero y \<Longrightarrow> fdiv x y = Inl ZeroDivisionError"
  by (simp add: fdiv_def)

lemma fdiv_Inr_iff: "(\<exists>z. fdiv x y = Inr z) \<longleftrightarrow> \<not> is_zero y"
  by (auto simp: fdiv_def)

lemma map_of_is_dict:
  "is_dict ((k, v) # items) \<Longrightarrow> map_of items k' = Some v' \<Longrightarrow> k' \<noteq> k"
  by (force simp: is_dict_def dest: map_of_SomeD)

lemma convert_numeric_ok:
  assumes "is_dict t"
    and "\<forall>k \<in> set numeric_fields. \<forall>v. map_of t k = Some v \<longrightarrow> (\<exists>d. to_float pf v = Inr d)"
  shows "\<exists>nums. convert_numeric pf t = Inr nums
           \<and> (\<forall>k \<in> set numeric_fields. \<forall>v d. map_of t k = Some v \<longrightarrow> to_float pf v = Inr d
                 \<longrightarrow> map_of nums k = Some d)"
  using assms
proof (induction t)
  case Nil
  then show ?case by simp
next
  case (Cons kv items)
  obtain k v where kv: "kv = (k, v)" by (cases kv)
  from Cons.prems(1) have d: "is_dict items" by (simp add: is_dict_def)
  have "\<forall>k' \<in> set numeric_fields. \<forall>v'. map_of items k' = Some v' \<longrightarrow> (\<exists>d. to_float pf v' = Inr d)"
  proof (intro ballI allI impI)
    fix k' v' assume k': "k' \<in> set numeric_fields" and m: "map_of items k' = Some v'"
    from map_of_is_dict [OF Cons.prems(1) [unfolded kv] m] have "k' \<noteq> k" .
    with m have "map_of (kv # items) k' = Some v'" by (simp add: kv)
    with Cons.prems(2) k' show "\<exists>d. to_float pf v' = Inr d" by blast
  qed
  from Cons.IH [OF d this] obtain nums where
    c: "convert_numeric pf items = Inr nums"
    and n: "\<forall>k \<in> set numeric_fields. \<forall>v d. map_of items k = Some v \<longrightarrow> to_float pf v = Inr d
                 \<longrightarrow> map_of nums k = Some d"
    by blast
  show ?case
  proof (cases "k \<in> set numeric_fields")
    case True
    have "map_of (kv # items) k = Some v" by (simp add: kv)
    with Cons.prems(2) True obtain d where dv: "to_float pf v = Inr d" by blast
    have "convert_numeric pf (kv # items) = Inr ((k, d) # nums)"
      using True dv c by (simp add: kv bnd_def)
    moreover have "\<forall>k' \<in> set numeric_fields. \<forall>v' d'. map_of (kv # items) k' = Some v'
        \<longrightarrow> to_float pf v' = Inr d' \<longrightarrow> map_of ((k, d) # nums) k' = Some d'"
      using n dv by (auto simp: kv)
    ultimately show ?thesis by blast
  next
    case False
    have "convert_numeric pf (kv # items) = Inr nums"
      using False c by (simp add: kv)
    moreover have "\<forall>k' \<in> set numeric_fields. \<forall>v' d'. map_of (kv # items) k' = Some v'
        \<longrightarrow> to_float pf v' = Inr d' \<longrightarrow> map_of nums k' = Some d'"
      using n False by (auto simp: kv)
    ultimately show ?thesis by blast
  qed
qed

lemma float_field_Some:
  "float_field pf t k = Inr d \<longleftrightarrow> (\<exists>v. map_of t k = Some v \<and> to_float pf v = Inr d)"
  by (auto simp: float_field_def getitem_def bnd_def split: option.splits)

text \<open>A record of a validated batch: every field is present, and every numeric field converts to a float in its range.\<close>

lemma validated_record:
  assumes "validate_data pf teams = Inr (report, [])" and "t \<in> set teams"
    and "f \<in> set numeric_fields"
  shows "\<exists>d. float_field pf t f = Inr d \<and> in_range f d"
proof -
  from validated_fields [OF assms(1,2)] assms(3)
  have k: "has_key t f"
    and r: "\<forall>v. map_of t f = Some v \<longrightarrow> (\<exists>d. to_float pf v = Inr d \<and> in_range f d)"
    by (auto simp: valid_fields_def numeric_fields_def)
  from k obtain v where "map_of t f = Some v" by (auto simp: has_key_def)
  with r show ?thesis by (auto simp: float_field_Some)
qed

text \<open>
  The central fact: on a record of a validated batch \<open>calculate_metrics\<close> finds every field
  and converts every numeric value. It returns a result, which obeys the formulas, exactly
  if the agent capacity and the required staff that the inputs give are not zero; otherwise
  it raises \<open>ZeroDivisionError\<close>.
\<close>

lemma calculate_metrics_outcome:
  assumes v: "validate_data pf teams = Inr (report, [])" and t: "t \<in> set teams" and d: "is_dict t"
  shows "\<exists>cs q a sh av re.
           float_field pf t ''current_staff'' = Inr cs
         \<and> float_field pf t ''queries_per_day'' = Inr q
         \<and> float_field pf t ''average_query_time'' = Inr a
         \<and> float_field pf t ''shift_hours'' = Inr sh
         \<and> float_field pf t ''available_capacity'' = Inr av
         \<and> float_field pf t ''remote_infrastructure_efficiency'' = Inr re
         \<and> (if nonzero (agent_capacity_of sh av) \<and> nonzero (required_staff_of q a sh av)
            then \<exists>m. calculate_metrics pf t = Inr m
                   \<and> getitem t ''team_id'' = Inr (team_id m)
                   \<and> current_staff m = cs \<and> queries_per_day m = q
                   \<and> average_query_time m = a \<and> shift_hours m = sh
                   \<and> available_capacity m = av \<and> remote_infrastructure_efficiency m = re
                   \<and> spec_formula_chain m
                   \<and> status m = (if spec_is_optimal m then ''Optimal'' else ''Needs Adjustment'')
                   \<and> recommendation m
                       = recommendation_text (spec_is_optimal m) (composite_score m)
                           (staffing_efficiency_ratio m) (utilization_rate m)
            else calculate_metrics pf t = Inl ZeroDivisionError)"
proof -
  have nf: "''current_staff'' \<in> set numeric_fields" "''queries_per_day'' \<in> set numeric_fields"
    "''average_query_time'' \<in> set numeric_fields" "''shift_hours'' \<in> set numeric_fields"
    "''available_capacity'' \<in> set numeric_fields"
    "''remote_infrastructure_efficiency'' \<in> set numeric_fields"
    by (simp_all add: numeric_fields_def)
  from validated_record [OF v t nf(1)] obtain cs where
    cs: "float_field pf t ''current_staff'' = Inr cs" and csr: "in_range ''current_staff'' cs" by blast
  from validated_record [OF v t nf(2)] obtain q where
    q: "float_field pf t ''queries_per_day'' = Inr q" by blast
  from validated_record [OF v t nf(3)] obtain a where
    a: "float_field pf t ''average_query_time'' = Inr a" by blast
  from validated_record [OF v t nf(4)] obtain sh where
    sh: "float_field pf t ''shift_hours'' = Inr sh" by blast
  from validated_record [OF v t nf(5)] obtain av where
    av: "float_field pf t ''available_capacity'' = Inr av" by blast
  from validated_record [OF v t nf(6)] obtain re where
    re: "float_field pf t ''remote_infrastructure_efficiency'' = Inr re" by blast
  from validated_fields [OF v t] have "has_key t ''team_id''" by (simp add: valid_fields_def)
  then obtain tid where tid: "getitem t ''team_id'' = Inr tid"
    by (auto simp: has_key_def getitem_def)
  have conv: "\<forall>k \<in> set numeric_fields. \<forall>v. map_of t k = Some v \<longrightarrow> (\<exists>d. to_float pf v = Inr d)"
    using validated_fields [OF v t] by blast
  from convert_numeric_ok [OF d conv] obtain nums where
    cn: "convert_numeric pf t = Inr nums"
    and n: "\<forall>k \<in> set numeric_fields. \<forall>v d. map_of t k = Some v \<longrightarrow> to_float pf v = Inr d
                 \<longrightarrow> map_of nums k = Some d"
    by blast
  have g: "getitem nums ''current_staff'' = Inr cs" "getitem nums ''queries_per_day'' = Inr q"
    "getitem nums ''average_query_time'' = Inr a" "getitem nums ''shift_hours'' = Inr sh"
    "getitem nums ''available_capacity'' = Inr av"
    "getitem nums ''remote_infrastructure_efficiency'' = Inr re"
    using n nf cs q a sh av re by (auto simp: float_field_Some getitem_def)
  have "\<not> is_zero cs" using csr by (simp add: in_range_def positive_not_zero)
  then obtain wpa where wpa: "fdiv (fmul q a) cs = Inr wpa" using fdiv_Inr by blast
  have "\<not> is_zero (lit 100)" by (simp add: lit_100)
  then obtain fr where fr: "fdiv av (lit 100) = Inr fr" using fdiv_Inr by blast
  define ac where "ac = fmul (fmul sh (lit 60)) fr"
  have aco: "agent_capacity_of sh av = Inr ac"
    by (simp add: agent_capacity_of_def fr bnd_def ac_def)
  have rso: "required_staff_of q a sh av = fdiv (fmul q a) ac"
    by (simp add: required_staff_of_def aco bnd_def)
  have "if nonzero (agent_capacity_of sh av) \<and> nonzero (required_staff_of q a sh av)
        then \<exists>m. calculate_metrics pf t = Inr m
               \<and> getitem t ''team_id'' = Inr (team_id m)
               \<and> current_staff m = cs \<and> queries_per_day m = q
               \<and> average_query_time m = a \<and> shift_hours m = sh
               \<and> available_capacity m = av \<and> remote_infrastructure_efficiency m = re
               \<and> spec_formula_chain m
               \<and> status m = (if spec_is_optimal m then ''Optimal'' else ''Needs Adjustment'')
               \<and> recommendation m
                   = recommendation_text (spec_is_optimal m) (composite_score m)
                       (staffing_efficiency_ratio m) (utilization_rate m)
        else calculate_metrics pf t = Inl ZeroDivisionError"
  proof (cases "is_zero ac")
    case True
    then have "fdiv wpa ac = Inl ZeroDivisionError" by (rule fdiv_Inl)
    then have "calculate_metrics pf t = Inl ZeroDivisionError"
      using cn g wpa fr by (simp add: calculate_metrics_def bnd_def Let_def ac_def)
    moreover from True have "\<not> nonzero (agent_capacity_of sh av)"
      by (simp add: aco nonzero_def)
    ultimately show ?thesis by simp
  next
    case False
    then have nz1: "nonzero (agent_capacity_of sh av)" by (simp add: aco nonzero_def)
    from False obtain ur where ur: "fdiv wpa ac = Inr ur" using fdiv_Inr by blast
    from False obtain sr where sr: "fdiv (fsub ac wpa) ac = Inr sr" using fdiv_Inr by blast
    from False obtain rs where rs: "fdiv (fmul q a) ac = Inr rs" using fdiv_Inr by blast
    show ?thesis
    proof (cases "is_zero rs")
      case True
      then have "fdiv cs rs = Inl ZeroDivisionError" by (rule fdiv_Inl)
      then have "calculate_metrics pf t = Inl ZeroDivisionError"
        using cn g wpa fr ur sr rs by (simp add: calculate_metrics_def bnd_def Let_def ac_def)
      moreover from True have "\<not> nonzero (required_staff_of q a sh av)"
        by (simp add: rso rs nonzero_def)
      ultimately show ?thesis by simp
    next
      case False
      then have nz2: "nonzero (required_staff_of q a sh av)" by (simp add: rso rs nonzero_def)
      from False obtain ser where ser: "fdiv cs rs = Inr ser" using fdiv_Inr by blast
      define comp where "comp = fadd (fadd (fmul (fmul sr (lit 100)) (lit (5 / 10)))
                                      (fmul re (lit (3 / 10))))
                                  (fmul (fsub (lit 100) (fmul ur (lit 100))) (lit (2 / 10)))"
      define opt where "opt \<longleftrightarrow> fle (lit 60) comp \<and> fle (lit (9 / 10)) ser
                           \<and> fle ser (lit (11 / 10)) \<and> fle (fmul ur (lit 100)) (lit 90)"
      have "\<exists>m. calculate_metrics pf t = Inr m \<and> team_id m = tid \<and> current_staff m = cs
          \<and> queries_per_day m = q \<and> average_query_time m = a \<and> shift_hours m = sh
          \<and> available_capacity m = av \<and> remote_infrastructure_efficiency m = re
          \<and> workload_step1 m = fmul q a \<and> workload_per_agent m = wpa
          \<and> capacity_step1 m = fmul sh (lit 60) \<and> agent_capacity m = ac
          \<and> utilization_rate m = fmul ur (lit 100)
          \<and> capacity_surplus_percentage m = fmul sr (lit 100)
          \<and> weighted_surplus m = fmul (fmul sr (lit 100)) (lit (5 / 10))
          \<and> weighted_efficiency m = fmul re (lit (3 / 10))
          \<and> weighted_utilization m = fmul (fsub (lit 100) (fmul ur (lit 100))) (lit (2 / 10))
          \<and> composite_score m = comp
          \<and> required_staff m = rs \<and> staffing_efficiency_ratio m = ser
          \<and> status m = (if opt then ''Optimal'' else ''Needs Adjustment'')
          \<and> recommendation m = recommendation_text opt comp ser (fmul ur (lit 100))"
        using cn g wpa fr ur sr rs ser tid
        by (simp add: calculate_metrics_def bnd_def Let_def ac_def [symmetric] comp_def opt_def)
      then obtain m where m: "calculate_metrics pf t = Inr m" "team_id m = tid" "current_staff m = cs"
          "queries_per_day m = q" "average_query_time m = a" "shift_hours m = sh"
          "available_capacity m = av" "remote_infrastructure_efficiency m = re"
          "workload_step1 m = fmul q a" "workload_per_agent m = wpa"
          "capacity_step1 m = fmul sh (lit 60)" "agent_capacity m = ac"
          "utilization_rate m = fmul ur (lit 100)"
          "capacity_surplus_percentage m = fmul sr (lit 100)"
          "weighted_surplus m = fmul (fmul sr (lit 100)) (lit (5 / 10))"
          "weighted_efficiency m = fmul re (lit (3 / 10))"
          "weighted_utilization m = fmul (fsub (lit 100) (fmul ur (lit 100))) (lit (2 / 10))"
          "composite_score m = comp"
          "required_staff m = rs" "staffing_efficiency_ratio m = ser"
          "status m = (if opt then ''Optimal'' else ''Needs Adjustment'')"
          "recommendation m = recommendation_text opt comp ser (fmul ur (lit 100))"
        by blast
      have chain: "spec_formula_chain m"
        using wpa fr ur sr rs ser by (simp add: spec_formula_chain_def m bnd_def ac_def comp_def)
      have o: "spec_is_optimal m \<longleftrightarrow> opt"
        by (simp add: spec_is_optimal_def m opt_def)
      have "calculate_metrics pf t = Inr m
            \<and> getitem t ''team_id'' = Inr (team_id m)
            \<and> current_staff m = cs \<and> queries_per_day m = q
            \<and> average_query_time m = a \<and> shift_hours m = sh
            \<and> available_capacity m = av \<and> remote_infrastructure_efficiency m = re
            \<and> spec_formula_chain m
            \<and> status m = (if spec_is_optimal m then ''Optimal'' else ''Needs Adjustment'')
            \<and> recommendation m
                = recommendation_text (spec_is_optimal m) (composite_score m)
                    (staffing_efficiency_ratio m) (utilization_rate m)"
        using tid chain o by (simp add: m)
      then have "\<exists>m. calculate_metrics pf t = Inr m
            \<and> getitem t ''team_id'' = Inr (team_id m)
            \<and> current_staff m = cs \<and> queries_per_day m = q
            \<and> average_query_time m = a \<and> shift_hours m = sh
            \<and> available_capacity m = av \<and> remote_infrastructure_efficiency m = re
            \<and> spec_formula_chain m
            \<and> status m = (if spec_is_optimal m then ''Optimal'' else ''Needs Adjustment'')
            \<and> recommendation m
                = recommendation_text (spec_is_optimal m) (composite_score m)
                    (staffing_efficiency_ratio m) (utilization_rate m)"
        by (rule exI)
      with nz1 nz2 show ?thesis by (simp only: simp_thms if_True)
    qed
  qed
  with cs q a sh av re show ?thesis by blast
qed

text \<open>In particular the only exception is \<open>ZeroDivisionError\<close>.\<close>

lemma calculate_metrics_validated:
  assumes v: "validate_data pf teams = Inr (report, [])" and t: "t \<in> set teams" and d: "is_dict t"
  shows "(\<exists>m. calculate_metrics pf t = Inr m
            \<and> getitem t ''team_id'' = Inr (team_id m)
            \<and> float_field pf t ''current_staff'' = Inr (current_staff m)
            \<and> float_field pf t ''queries_per_day'' = Inr (queries_per_day m)
            \<and> float_field pf t ''average_query_time'' = Inr (average_query_time m)
            \<and> float_field pf t ''shift_hours'' = Inr (shift_hours m)
            \<and> float_field pf t ''available_capacity'' = Inr (available_capacity m)
            \<and> float_field pf t ''remote_infrastructure_efficiency''
                = Inr (remote_infrastructure_efficiency m)
            \<and> spec_formula_chain m
            \<and> status m = (if spec_is_optimal m then ''Optimal'' else ''Needs Adjustment'')
            \<and> recommendation m
                = recommendation_text (spec_is_optimal m) (composite_score m)
                    (staffing_efficiency_ratio m) (utilization_rate m))
       \<or> calculate_metrics pf t = Inl ZeroDivisionError"
proof -
  from calculate_metrics_outcome [OF assms] obtain cs q a sh av re where
    f: "float_field pf t ''current_staff'' = Inr cs"
       "float_field pf t ''queries_per_day'' = Inr q"
       "float_field pf t ''average_query_time'' = Inr a"
       "float_field pf t ''shift_hours'' = Inr sh"
       "float_field pf t ''available_capacity'' = Inr av"
       "float_field pf t ''remote_infrastructure_efficiency'' = Inr re"
    and o: "if nonzero (agent_capacity_of sh av) \<and> nonzero (required_staff_of q a sh av)
            then \<exists>m. calculate_metrics pf t = Inr m
                   \<and> getitem t ''team_id'' = Inr (team_id m)
                   \<and> current_staff m = cs \<and> queries_per_day m = q
                   \<and> average_query_time m = a \<and> shift_hours m = sh
                   \<and> available_capacity m = av \<and> remote_infrastructure_efficiency m = re
                   \<and> spec_formula_chain m
                   \<and> status m = (if spec_is_optimal m then ''Optimal'' else ''Needs Adjustment'')
                   \<and> recommendation m
                       = recommendation_text (spec_is_optimal m) (composite_score m)
                           (staffing_efficiency_ratio m) (utilization_rate m)
            else calculate_metrics pf t = Inl ZeroDivisionError"
    by blast
  show ?thesis
  proof (cases "nonzero (agent_capacity_of sh av) \<and> nonzero (required_staff_of q a sh av)")
    case True
    with o obtain m where "calculate_metrics pf t = Inr m"
        "getitem t ''team_id'' = Inr (team_id m)"
        "current_staff m = cs" "queries_per_day m = q"
        "average_query_time m = a" "shift_hours m = sh"
        "available_capacity m = av" "remote_infrastructure_efficiency m = re"
        "spec_formula_chain m"
        "status m = (if spec_is_optimal m then ''Optimal'' else ''Needs Adjustment'')"
        "recommendation m
           = recommendation_text (spec_is_optimal m) (composite_score m)
               (staffing_efficiency_ratio m) (utilization_rate m)"
      by (simp only: simp_thms if_True) blast
    with f show ?thesis by (intro disjI1 exI [of _ m]) (simp only: simp_thms)
  next
    case False
    with o show ?thesis by (simp only: if_False simp_thms)
  qed
qed

section \<open>Zero operands and the pipeline\<close>

lemma round_dbl_zero: "is_zero (round_dbl neg 0)"
  by (simp add: round_dbl_def round_fin_def)

lemma fdiv_zero_dividend:
  assumes "is_zero x" and "fdiv x (lit 100) = Inr z"
  shows "is_zero z"
proof -
  from assms(1) have x: "val x = 0" "\<not> is_nan x" "\<not> is_inf x" by (cases x; simp)+
  with assms(2) have "z = round_dbl (is_neg x \<noteq> is_neg (Fin 100)) 0"
    by (simp add: fdiv_def lit_100)
  then show ?thesis by (simp add: round_dbl_zero)
qed

lemma fmul_finite_zero:
  assumes "is_finite c" and "is_zero z"
  shows "is_zero (fmul c z)"
proof -
  from assms(1) have c: "\<not> is_nan c" "\<not> is_inf c" by (cases c; simp)+
  from assms(2) have z: "val z = 0" "\<not> is_nan z" "\<not> is_inf z" by (cases z; simp)+
  from c z show ?thesis by (simp add: fmul_def round_dbl_zero)
qed

text \<open>
  The list comprehension of \<open>generate_report\<close> over validated records: the calls are made in
  order up to the first exception, which can only be \<open>ZeroDivisionError\<close>.
\<close>

lemma team_results_prefix: "prefix (snd (team_results pf ts)) ts"
  by (induction ts) (auto split: sum.splits prod.splits)

lemma team_results_nonempty: "ts \<noteq> [] \<Longrightarrow> snd (team_results pf ts) \<noteq> []"
  by (cases ts) (auto split: sum.splits prod.splits)

lemma team_results_validated:
  assumes "validate_data pf teams = Inr (report, [])"
    and "\<forall>u \<in> set ts. u \<in> set teams \<and> is_dict u"
  shows "fst (team_results pf ts) = Inl ZeroDivisionError
       \<or> ((\<exists>ms. fst (team_results pf ts) = Inr ms)
           \<and> (\<forall>u \<in> set ts. \<exists>m. calculate_metrics pf u = Inr m))"
  using assms(2)
proof (induction ts)
  case Nil
  then show ?case by simp
next
  case (Cons u us)
  from Cons.prems have u: "u \<in> set teams" "is_dict u" by simp_all
  from Cons.prems have "\<forall>w \<in> set us. w \<in> set teams \<and> is_dict w" by simp
  note ih = Cons.IH [OF this]
  from calculate_metrics_validated [OF assms(1) u]
  consider m where "calculate_metrics pf u = Inr m" | "calculate_metrics pf u = Inl ZeroDivisionError"
    by blast
  then show ?case
  proof cases
    case 1
    with ih show ?thesis
      by (cases "team_results pf us") (auto simp: bnd_def)
  next
    case 2
    then show ?thesis by simp
  qed
qed

lemma process_input_validated:
  assumes "parse input_data = Inr teams" and "validate_data pf teams = Inr (report, [])"
  shows "process_input parse render pf input_data =
           (bnd (fst (team_results pf teams))
              (\<lambda>results. Inr (join_lines report @ ''\<newline>\<newline>'' @ render teams results)),
            snd (team_results pf teams))"
  using assms
  by (cases "team_results pf teams")
     (auto simp: process_input_def generate_report_def bnd_def split: sum.splits)

section \<open>Evaluation of the examples\<close>

text \<open>The float literals and integer operands of \<open>calculate_metrics\<close>.\<close>

lemma lit_60: "lit 60 = Fin 60"
  by code_simp

lemma lit_90: "lit 90 = Fin 90"
  by code_simp

lemma lit_half: "lit (1 / 2) = Fin (1 / 2)"
  by code_simp

lemma lit_three_tenths: "lit (3 / 10) = Fin (5404319552844595 / 18014398509481984)"
  by code_simp

lemma lit_fifth: "lit (1 / 5) = Fin (3602879701896397 / 18014398509481984)"
  by code_simp

lemma lit_nine_tenths: "lit (9 / 10) = Fin (8106479329266893 / 9007199254740992)"
  by code_simp

lemma lit_eleven_tenths: "lit (11 / 10) = Fin (2476979795053773 / 2251799813685248)"
  by code_simp

lemmas lit_values = lit_0 lit_100 lit_60 lit_90 lit_half lit_three_tenths lit_fifth lit_nine_tenths lit_eleven_tenths

text \<open>The operations of the chain on \<open>team_omega\<close>, one by one.\<close>

lemma omega_mul1: "fmul (Fin 150) (Fin 3) = Fin 450"
  by code_simp

lemma omega_div2: "fdiv (Fin 450) (Fin 10) = Inr (Fin 45)"
  by code_simp

lemma omega_mul3: "fmul (Fin 8) (Fin 60) = Fin 480"
  by code_simp

lemma omega_div4: "fdiv (Fin 70) (Fin 100) = Inr (Fin (3152519739159347 / 4503599627370496))"
  by code_simp

lemma omega_mul5: "fmul (Fin 480) (Fin (3152519739159347 / 4503599627370496)) = Fin 336"
  by code_simp

lemma omega_div6: "fdiv (Fin 45) (Fin 336) = Inr (Fin (4825285315039817 / 36028797018963968))"
  by code_simp

lemma omega_mul7: "fmul (Fin (4825285315039817 / 36028797018963968)) (Fin 100) = Fin (3769754152374857 / 281474976710656)"
  by code_simp

lemma omega_sub8: "fsub (Fin 336) (Fin 45) = Fin 291"
  by code_simp

lemma omega_div9: "fdiv (Fin 291) (Fin 336) = Inr (Fin (3900438962990519 / 4503599627370496))"
  by code_simp

lemma omega_mul10: "fmul (Fin (3900438962990519 / 4503599627370496)) (Fin 100) = Fin (3047217939836343 / 35184372088832)"
  by code_simp

lemma omega_mul11: "fmul (Fin (3047217939836343 / 35184372088832)) (Fin (1 / 2)) = Fin (3047217939836343 / 70368744177664)"
  by code_simp

lemma omega_mul12: "fmul (Fin 80) (Fin (5404319552844595 / 18014398509481984)) = Fin 24"
  by code_simp

lemma omega_sub13: "fsub (Fin 100) (Fin (3769754152374857 / 281474976710656)) = Fin (3047217939836343 / 35184372088832)"
  by code_simp

lemma omega_mul14: "fmul (Fin (3047217939836343 / 35184372088832)) (Fin (3602879701896397 / 18014398509481984)) = Fin (4875548703738149 / 281474976710656)"
  by code_simp

lemma omega_add15: "fadd (Fin (3047217939836343 / 70368744177664)) (Fin 24) = Fin (4736067800100279 / 70368744177664)"
  by code_simp

lemma omega_add16: "fadd (Fin (4736067800100279 / 70368744177664)) (Fin (4875548703738149 / 281474976710656)) = Fin (677 / 8)"
  by code_simp

lemma omega_div17: "fdiv (Fin 450) (Fin 336) = Inr (Fin (6031606643799771 / 4503599627370496))"
  by code_simp

lemma omega_div18: "fdiv (Fin 10) (Fin (6031606643799771 / 4503599627370496)) = Inr (Fin (4203359652212463 / 562949953421312))"
  by code_simp

lemma omega_le19: "fle (Fin 60) (Fin (677 / 8))"
  by code_simp

lemma omega_le20: "fle (Fin (8106479329266893 / 9007199254740992)) (Fin (4203359652212463 / 562949953421312))"
  by code_simp

lemma omega_le21: "\<not> fle (Fin (4203359652212463 / 562949953421312)) (Fin (2476979795053773 / 2251799813685248))"
  by code_simp

lemma omega_le22: "fle (Fin (3769754152374857 / 281474976710656)) (Fin 90)"
  by code_simp

lemma omega_fmt23: "fmt2 (Fin (677 / 8)) = ''84.62''"
  by code_simp

lemma omega_fmt24: "fmt2 (Fin (4203359652212463 / 562949953421312)) = ''7.47''"
  by code_simp

lemma omega_fmt25: "fmt2 (Fin (3769754152374857 / 281474976710656)) = ''13.39''"
  by code_simp

lemmas omega_ops =
  omega_mul1 omega_div2 omega_mul3 omega_div4 omega_mul5 omega_div6 omega_mul7 omega_sub8
  omega_div9 omega_mul10 omega_mul11 omega_mul12 omega_sub13 omega_mul14 omega_add15
  omega_add16 omega_div17 omega_div18 omega_le19 omega_le20 omega_le21 omega_le22
  omega_fmt23 omega_fmt24 omega_fmt25

lemma omega_convert:
  "convert_numeric pf team_omega =
     Inr [(''current_staff'', Fin 10), (''queries_per_day'', Fin 150),
      (''average_query_time'', Fin 3), (''shift_hours'', Fin 8),
      (''available_capacity'', Fin 70), (''remote_infrastructure_efficiency'', Fin 80)]"
  by code_simp

lemma omega_team_id: "map_of team_omega ''team_id'' = Some (StrV ''TeamOmega'')"
  by (simp add: team_omega_def)

lemma omega_result: "calculate_metrics pf team_omega = Inr omega_metrics"
  by (simp add: calculate_metrics_def omega_convert omega_team_id bnd_def getitem_def Let_def
        lit_values omega_ops recommendation_text_def omega_metrics_def)

lemma omega_validated: "validate_data pf [team_omega] = Inr (clean_report, [])"
  unfolding clean_report_def by code_simp

lemma omega_is_dict: "is_dict team_omega"
  by code_simp

























lemma seven_is_dict: "is_dict team_seven"
  by code_simp

text \<open>The operations of the chain on \<open>team_inf\<close>, one by one.\<close>

lemma inf_mul3: "fmul PInf (Fin 60) = PInf"
  by code_simp

lemma inf_div4: "fdiv (Fin 0) (Fin 100) = Inr (Fin 0)"
  by code_simp

lemma inf_mul5: "fmul PInf (Fin 0) = NaN"
  by code_simp

lemma inf_div6: "fdiv (Fin 45) NaN = Inr NaN"
  by code_simp

lemma inf_mul7: "fmul NaN (Fin 100) = NaN"
  by code_simp

lemma inf_sub8: "fsub NaN (Fin 45) = NaN"
  by code_simp

lemma inf_div9: "fdiv NaN NaN = Inr NaN"
  by code_simp

lemma inf_mul11: "fmul NaN (Fin (1 / 2)) = NaN"
  by code_simp

lemma inf_sub13: "fsub (Fin 100) NaN = NaN"
  by code_simp

lemma inf_mul14: "fmul NaN (Fin (3602879701896397 / 18014398509481984)) = NaN"
  by code_simp

lemma inf_add15: "fadd NaN (Fin 24) = NaN"
  by code_simp

lemma inf_add16: "fadd NaN NaN = NaN"
  by code_simp

lemma inf_div17: "fdiv (Fin 450) NaN = Inr NaN"
  by code_simp

lemma inf_div18: "fdiv (Fin 10) NaN = Inr NaN"
  by code_simp

lemma inf_le19: "\<not> fle (Fin 60) NaN"
  by code_simp

lemma inf_le20: "\<not> fle (Fin (8106479329266893 / 9007199254740992)) NaN"
  by code_simp

lemma inf_le21: "\<not> fle NaN (Fin (2476979795053773 / 2251799813685248))"
  by code_simp

lemma inf_le22: "\<not> fle NaN (Fin 90)"
  by code_simp

lemma inf_fmt23: "fmt2 NaN = ''nan''"
  by code_simp

lemmas inf_ops =
  omega_mul1 omega_div2 inf_mul3 inf_div4 inf_mul5 inf_div6 inf_mul7 inf_sub8 inf_div9
  inf_mul11 omega_mul12 inf_sub13 inf_mul14 inf_add15 inf_add16 inf_div17 inf_div18
  inf_le19 inf_le20 inf_le21 inf_le22 inf_fmt23

lemma inf_convert:
  "convert_numeric float_of_string team_inf =
     Inr [(''current_staff'', Fin 10), (''queries_per_day'', Fin 150),
      (''average_query_time'', Fin 3), (''shift_hours'', PInf),
      (''available_capacity'', Fin 0), (''remote_infrastructure_efficiency'', Fin 80)]"
  by code_simp

lemma inf_team_id: "map_of team_inf ''team_id'' = Some (StrV ''TeamInf'')"
  by (simp add: team_inf_def)

lemma inf_result: "calculate_metrics float_of_string team_inf = Inr inf_metrics"
  by (simp add: calculate_metrics_def inf_convert inf_team_id bnd_def getitem_def Let_def
        lit_values inf_ops recommendation_text_def inf_metrics_def)

lemma inf_validated: "validate_data float_of_string [team_inf] = Inr (clean_report, [])"
  unfolding clean_report_def by code_simp

lemma inf_is_dict: "is_dict team_inf"
  by code_simp

section \<open>A record with no available capacity\<close>

lemma zero_validated: "validate_data float_of_string [team_zero] = Inr (clean_report, [])"
  unfolding clean_report_def by code_simp

lemma zero_is_dict: "is_dict team_zero"
  by code_simp

lemma zero_available_capacity:
  "float_field float_of_string team_zero ''available_capacity'' = Inr (Fin 0)"
  by code_simp

lemma zero_shift_hours: "float_field float_of_string team_zero ''shift_hours'' = Inr (Fin 8)"
  by code_simp

lemma zero_agent_capacity: "agent_capacity_of (Fin 8) (Fin 0) = Inr (Fin 0)"
  by code_simp

lemma zero_result: "calculate_metrics float_of_string team_zero = Inl ZeroDivisionError"
proof -
  have h: "team_zero \<in> set [team_zero]" by simp
  from calculate_metrics_outcome [OF zero_validated h zero_is_dict]
  show ?thesis
    by (auto simp: zero_available_capacity zero_shift_hours zero_agent_capacity nonzero_def
             split: if_splits)
qed

section \<open>The formula chain\<close>

text \<open>
  Claim C2 says that for every validated record the calculation computes the formula chain
  and retains every intermediate value in the returned result. The row
  \<open>TeamZero,10,150,3.0,8,0,80\<close> is validated, but nothing is returned for it: its agent
  capacity is zero, and the first division by it raises \<open>ZeroDivisionError\<close>.
\<close>

theorem formula_chain_counterexample:
  "validate_data float_of_string [team_zero] = Inr (clean_report, [])
   \<and> is_dict team_zero
   \<and> calculate_metrics float_of_string team_zero = Inl ZeroDivisionError"
  using zero_validated zero_is_dict zero_result by simp

text \<open>
  Claim C2, amended. For every record of a validated batch the six numeric inputs are
  floats. If the agent capacity and the required staff that the formulas give for these
  inputs are both non-zero, \<open>calculate_metrics\<close> returns a result that holds the six
  inputs and whose fields obey the twelve formulas of the specification, in Python's float
  arithmetic, every intermediate value being a field of the result. If one of the two is
  zero, \<open>calculate_metrics\<close> raises \<open>ZeroDivisionError\<close> and returns nothing.
\<close>

theorem calculate_metrics_formula_chain:
  assumes "validate_data pf teams = Inr (report, [])" and "t \<in> set teams" and "is_dict t"
  shows "\<exists>cs q a sh av re.
           float_field pf t ''current_staff'' = Inr cs
         \<and> float_field pf t ''queries_per_day'' = Inr q
         \<and> float_field pf t ''average_query_time'' = Inr a
         \<and> float_field pf t ''shift_hours'' = Inr sh
         \<and> float_field pf t ''available_capacity'' = Inr av
         \<and> float_field pf t ''remote_infrastructure_efficiency'' = Inr re
         \<and> (if nonzero (agent_capacity_of sh av) \<and> nonzero (required_staff_of q a sh av)
            then \<exists>m. calculate_metrics pf t = Inr m
                   \<and> current_staff m = cs \<and> queries_per_day m = q
                   \<and> average_query_time m = a \<and> shift_hours m = sh
                   \<and> available_capacity m = av \<and> remote_infrastructure_efficiency m = re
                   \<and> spec_formula_chain m
            else calculate_metrics pf t = Inl ZeroDivisionError)"
proof -
  from calculate_metrics_outcome [OF assms] obtain cs q a sh av re where
    f: "float_field pf t ''current_staff'' = Inr cs"
       "float_field pf t ''queries_per_day'' = Inr q"
       "float_field pf t ''average_query_time'' = Inr a"
       "float_field pf t ''shift_hours'' = Inr sh"
       "float_field pf t ''available_capacity'' = Inr av"
       "float_field pf t ''remote_infrastructure_efficiency'' = Inr re"
    and o: "if nonzero (agent_capacity_of sh av) \<and> nonzero (required_staff_of q a sh av)
            then \<exists>m. calculate_metrics pf t = Inr m
                   \<and> getitem t ''team_id'' = Inr (team_id m)
                   \<and> current_staff m = cs \<and> queries_per_day m = q
                   \<and> average_query_time m = a \<and> shift_hours m = sh
                   \<and> available_capacity m = av \<and> remote_infrastructure_efficiency m = re
                   \<and> spec_formula_chain m
                   \<and> status m = (if spec_is_optimal m then ''Optimal'' else ''Needs Adjustment'')
                   \<and> recommendation m
                       = recommendation_text (spec_is_optimal m) (composite_score m)
                           (staffing_efficiency_ratio m) (utilization_rate m)
            else calculate_metrics pf t = Inl ZeroDivisionError"
    by blast
  have "if nonzero (agent_capacity_of sh av) \<and> nonzero (required_staff_of q a sh av)
        then \<exists>m. calculate_metrics pf t = Inr m
               \<and> current_staff m = cs \<and> queries_per_day m = q
               \<and> average_query_time m = a \<and> shift_hours m = sh
               \<and> available_capacity m = av \<and> remote_infrastructure_efficiency m = re
               \<and> spec_formula_chain m
        else calculate_metrics pf t = Inl ZeroDivisionError"
  proof (cases "nonzero (agent_capacity_of sh av) \<and> nonzero (required_staff_of q a sh av)")
    case True
    with o obtain m where "calculate_metrics pf t = Inr m"
        "current_staff m = cs" "queries_per_day m = q"
        "average_query_time m = a" "shift_hours m = sh"
        "available_capacity m = av" "remote_infrastructure_efficiency m = re"
        "spec_formula_chain m"
      by (simp only: simp_thms if_True) blast
    then have "\<exists>m. calculate_metrics pf t = Inr m
               \<and> current_staff m = cs \<and> queries_per_day m = q
               \<and> average_query_time m = a \<and> shift_hours m = sh
               \<and> available_capacity m = av \<and> remote_infrastructure_efficiency m = re
               \<and> spec_formula_chain m"
      by (intro exI [of _ m]) (simp only: simp_thms)
    with True show ?thesis by (simp only: simp_thms if_True)
  next
    case False
    with o show ?thesis by (simp only: if_False simp_thms)
  qed
  with f show ?thesis by blast
qed


theorem calculate_metrics_formula_chain_witness:
  "validate_data float_of_string [team_omega] = Inr (clean_report, [])
   \<and> team_omega \<in> set [team_omega]
   \<and> is_dict team_omega
   \<and> calculate_metrics float_of_string team_omega = Inr omega_metrics
   \<and> float_field float_of_string team_omega ''queries_per_day''
       = Inr (queries_per_day omega_metrics)
   \<and> spec_formula_chain omega_metrics
   \<and> validate_data float_of_string [team_zero] = Inr (clean_report, [])
   \<and> team_zero \<in> set [team_zero]
   \<and> is_dict team_zero
   \<and> float_field float_of_string team_zero ''shift_hours'' = Inr (Fin 8)
   \<and> float_field float_of_string team_zero ''available_capacity'' = Inr (Fin 0)
   \<and> \<not> nonzero (agent_capacity_of (Fin 8) (Fin 0))
   \<and> calculate_metrics float_of_string team_zero = Inl ZeroDivisionError"
proof -
  have h: "team_omega \<in> set [team_omega]" by simp
  from calculate_metrics_formula_chain [OF omega_validated h omega_is_dict, of float_of_string]
    omega_result [of float_of_string]
  have 1: "float_field float_of_string team_omega ''queries_per_day''
             = Inr (queries_per_day omega_metrics)
         \<and> spec_formula_chain omega_metrics"
    by (auto split: if_splits)
  have k: "team_zero \<in> set [team_zero]" by simp
  from calculate_metrics_formula_chain [OF zero_validated k zero_is_dict]
  have 2: "calculate_metrics float_of_string team_zero = Inl ZeroDivisionError"
    by (auto simp: zero_available_capacity zero_shift_hours zero_agent_capacity nonzero_def
             split: if_splits)
  from 1 2 show ?thesis
    using omega_validated [of float_of_string] omega_is_dict omega_result [of float_of_string]
      zero_validated zero_is_dict zero_available_capacity zero_shift_hours
    by (simp add: zero_agent_capacity nonzero_def)
qed

section \<open>The decision rule and the status\<close>

lemma omega_not_optimal: "\<not> spec_is_optimal omega_metrics"
  by (simp add: spec_is_optimal_def omega_metrics_def lit_values omega_ops)

text \<open>
  Claim C3. For every record of a validated batch, \<open>calculate_metrics\<close> returns a result
  exactly if the agent capacity and the required staff that the formulas give for its
  inputs are non-zero. The result obeys the formula chain on these inputs, and it is
  classified optimal, in the status and in the recommendation, if and only if all three
  thresholds hold: \<open>composite_score \<ge> 60\<close>, \<open>0.9 \<le> staffing_efficiency_ratio \<le> 1.1\<close> and
  \<open>utilization_rate \<le> 90\<close>. For the other records of the batch the thresholds have no
  value: \<open>calculate_metrics\<close> raises \<open>ZeroDivisionError\<close>, and no record is classified
  optimal.
\<close>

theorem optimal_iff_thresholds:
  assumes "validate_data pf teams = Inr (report, [])" and "t \<in> set teams" and "is_dict t"
  shows "\<exists>cs q a sh av re.
           float_field pf t ''current_staff'' = Inr cs
         \<and> float_field pf t ''queries_per_day'' = Inr q
         \<and> float_field pf t ''average_query_time'' = Inr a
         \<and> float_field pf t ''shift_hours'' = Inr sh
         \<and> float_field pf t ''available_capacity'' = Inr av
         \<and> float_field pf t ''remote_infrastructure_efficiency'' = Inr re
         \<and> (if nonzero (agent_capacity_of sh av) \<and> nonzero (required_staff_of q a sh av)
            then \<exists>m. calculate_metrics pf t = Inr m
                   \<and> current_staff m = cs \<and> queries_per_day m = q
                   \<and> average_query_time m = a \<and> shift_hours m = sh
                   \<and> available_capacity m = av \<and> remote_infrastructure_efficiency m = re
                   \<and> spec_formula_chain m
                   \<and> (status m = ''Optimal'' \<longleftrightarrow> spec_is_optimal m)
                   \<and> recommendation m
                       = recommendation_text (spec_is_optimal m) (composite_score m)
                           (staffing_efficiency_ratio m) (utilization_rate m)
            else calculate_metrics pf t = Inl ZeroDivisionError)"
proof -
  from calculate_metrics_outcome [OF assms] obtain cs q a sh av re where
    f: "float_field pf t ''current_staff'' = Inr cs"
       "float_field pf t ''queries_per_day'' = Inr q"
       "float_field pf t ''average_query_time'' = Inr a"
       "float_field pf t ''shift_hours'' = Inr sh"
       "float_field pf t ''available_capacity'' = Inr av"
       "float_field pf t ''remote_infrastructure_efficiency'' = Inr re"
    and o: "if nonzero (agent_capacity_of sh av) \<and> nonzero (required_staff_of q a sh av)
            then \<exists>m. calculate_metrics pf t = Inr m
                   \<and> getitem t ''team_id'' = Inr (team_id m)
                   \<and> current_staff m = cs \<and> queries_per_day m = q
                   \<and> average_query_time m = a \<and> shift_hours m = sh
                   \<and> available_capacity m = av \<and> remote_infrastructure_efficiency m = re
                   \<and> spec_formula_chain m
                   \<and> status m = (if spec_is_optimal m then ''Optimal'' else ''Needs Adjustment'')
                   \<and> recommendation m
                       = recommendation_text (spec_is_optimal m) (composite_score m)
                           (staffing_efficiency_ratio m) (utilization_rate m)
            else calculate_metrics pf t = Inl ZeroDivisionError"
    by blast
  have "if nonzero (agent_capacity_of sh av) \<and> nonzero (required_staff_of q a sh av)
        then \<exists>m. calculate_metrics pf t = Inr m
               \<and> current_staff m = cs \<and> queries_per_day m = q
               \<and> average_query_time m = a \<and> shift_hours m = sh
               \<and> available_capacity m = av \<and> remote_infrastructure_efficiency m = re
               \<and> spec_formula_chain m
               \<and> (status m = ''Optimal'' \<longleftrightarrow> spec_is_optimal m)
               \<and> recommendation m
                   = recommendation_text (spec_is_optimal m) (composite_score m)
                       (staffing_efficiency_ratio m) (utilization_rate m)
        else calculate_metrics pf t = Inl ZeroDivisionError"
  proof (cases "nonzero (agent_capacity_of sh av) \<and> nonzero (required_staff_of q a sh av)")
    case True
    with o obtain m where m: "calculate_metrics pf t = Inr m"
        "current_staff m = cs" "queries_per_day m = q"
        "average_query_time m = a" "shift_hours m = sh"
        "available_capacity m = av" "remote_infrastructure_efficiency m = re"
        "spec_formula_chain m"
        "recommendation m
           = recommendation_text (spec_is_optimal m) (composite_score m)
               (staffing_efficiency_ratio m) (utilization_rate m)"
      and s: "status m = (if spec_is_optimal m then ''Optimal'' else ''Needs Adjustment'')"
      by (simp only: simp_thms if_True) blast
    from s have "status m = ''Optimal'' \<longleftrightarrow> spec_is_optimal m" by simp
    with m have "\<exists>m. calculate_metrics pf t = Inr m
               \<and> current_staff m = cs \<and> queries_per_day m = q
               \<and> average_query_time m = a \<and> shift_hours m = sh
               \<and> available_capacity m = av \<and> remote_infrastructure_efficiency m = re
               \<and> spec_formula_chain m
               \<and> (status m = ''Optimal'' \<longleftrightarrow> spec_is_optimal m)
               \<and> recommendation m
                   = recommendation_text (spec_is_optimal m) (composite_score m)
                       (staffing_efficiency_ratio m) (utilization_rate m)"
      by (intro exI [of _ m]) (simp only: simp_thms)
    with True show ?thesis by (simp only: simp_thms if_True)
  next
    case False
    with o show ?thesis by (simp only: if_False simp_thms)
  qed
  with f show ?thesis by blast
qed

theorem optimal_iff_thresholds_witness:
  "validate_data float_of_string [team_omega] = Inr (clean_report, [])
   \<and> team_omega \<in> set [team_omega]
   \<and> is_dict team_omega
   \<and> calculate_metrics float_of_string team_omega = Inr omega_metrics
   \<and> (status omega_metrics = ''Optimal'' \<longleftrightarrow> spec_is_optimal omega_metrics)
   \<and> recommendation omega_metrics
       = recommendation_text (spec_is_optimal omega_metrics) (composite_score omega_metrics)
           (staffing_efficiency_ratio omega_metrics) (utilization_rate omega_metrics)
   \<and> validate_data float_of_string [team_zero] = Inr (clean_report, [])
   \<and> team_zero \<in> set [team_zero]
   \<and> is_dict team_zero
   \<and> float_field float_of_string team_zero ''shift_hours'' = Inr (Fin 8)
   \<and> float_field float_of_string team_zero ''available_capacity'' = Inr (Fin 0)
   \<and> \<not> nonzero (agent_capacity_of (Fin 8) (Fin 0))
   \<and> calculate_metrics float_of_string team_zero = Inl ZeroDivisionError"
proof -
  have h: "team_omega \<in> set [team_omega]" by simp
  from optimal_iff_thresholds [OF omega_validated h omega_is_dict, of float_of_string]
    omega_result [of float_of_string]
  have 1: "(status omega_metrics = ''Optimal'' \<longleftrightarrow> spec_is_optimal omega_metrics)
         \<and> recommendation omega_metrics
             = recommendation_text (spec_is_optimal omega_metrics) (composite_score omega_metrics)
                 (staffing_efficiency_ratio omega_metrics) (utilization_rate omega_metrics)"
    by (auto split: if_splits)
  have k: "team_zero \<in> set [team_zero]" by simp
  from optimal_iff_thresholds [OF zero_validated k zero_is_dict]
  have 2: "calculate_metrics float_of_string team_zero = Inl ZeroDivisionError"
    by (auto simp: zero_available_capacity zero_shift_hours zero_agent_capacity nonzero_def
             split: if_splits)
  from 1 2 show ?thesis
    using omega_validated [of float_of_string] omega_is_dict omega_result [of float_of_string]
      zero_validated zero_is_dict zero_available_capacity zero_shift_hours
    by (simp add: zero_agent_capacity nonzero_def)
qed

text \<open>
  Claim C4 says that the status of a record that is not optimal is the string
  \<open>NeedsAdjustment\<close>. The code writes it with a space: the first team of the sample data is
  validated, is not optimal, and its status is not \<open>NeedsAdjustment\<close>.
\<close>

theorem status_text_counterexample:
  "validate_data float_of_string [team_omega] = Inr (clean_report, [])
   \<and> calculate_metrics float_of_string team_omega = Inr omega_metrics
   \<and> \<not> spec_is_optimal omega_metrics
   \<and> status omega_metrics \<noteq> ''NeedsAdjustment''"
  using omega_validated [of float_of_string] omega_result [of float_of_string] omega_not_optimal
  by (simp add: omega_metrics_def)

text \<open>
  Claim C4, amended. For every record of a validated batch for which \<open>calculate_metrics\<close>
  returns a result, the status is exactly \<open>Optimal\<close> when the record is optimal and exactly
  \<open>Needs Adjustment\<close> otherwise.
\<close>

theorem status_text:
  assumes "validate_data pf teams = Inr (report, [])" and "t \<in> set teams" and "is_dict t"
  shows "(\<exists>m. calculate_metrics pf t = Inr m
            \<and> status m = (if spec_is_optimal m then ''Optimal'' else ''Needs Adjustment''))
       \<or> calculate_metrics pf t = Inl ZeroDivisionError"
  using calculate_metrics_validated [OF assms] by blast

theorem status_text_witness:
  "validate_data float_of_string [team_omega] = Inr (clean_report, [])
   \<and> team_omega \<in> set [team_omega]
   \<and> is_dict team_omega
   \<and> calculate_metrics float_of_string team_omega = Inr omega_metrics
   \<and> status omega_metrics
       = (if spec_is_optimal omega_metrics then ''Optimal'' else ''Needs Adjustment'')"
proof -
  have h: "team_omega \<in> set [team_omega]" by simp
  from status_text [OF omega_validated h omega_is_dict, of float_of_string]
  show ?thesis
    using omega_validated [of float_of_string] omega_is_dict
    by (auto simp: omega_result)
qed

section \<open>Values that are no numbers\<close>

text \<open>
  Claim C5, at the JSON object of the sample data with \<open>"current_staff": null\<close>. The
  \<open>try\<close> block of \<open>validate_data\<close> catches \<open>ValueError\<close> only; \<open>float(None)\<close> raises
  \<open>TypeError\<close>, which leaves \<open>validate_data\<close> and \<open>process_input\<close>: no report and no error
  list is returned.
\<close>

theorem validate_data_raises_on_null:
  "validate_data pf [team_null] = Inl TypeError
   \<and> process_input (parsed_as [team_null]) render pf input_data = (Inl TypeError, [])"
proof -
  have v: "validate_data pf [team_null] = Inl TypeError" by code_simp
  then show ?thesis by (simp add: process_input_def parsed_as_def)
qed

section \<open>No available capacity\<close>

lemma inf_available_capacity:
  "float_field float_of_string team_inf ''available_capacity'' = Inr (Fin 0)"
  by code_simp

text \<open>
  Claim C7 says that a validated record with \<open>available_capacity = 0\<close> has an agent capacity
  of 0 and never silently yields NaN metrics. The validator admits every positive
  \<open>shift_hours\<close>, also one whose product with 60 overflows: for the CSV row
  \<open>TeamInf,10,150,3.0,inf,0,80\<close> the capacity is \<open>inf * 0.0\<close>, which is NaN, no division
  raises, and the result is returned with NaN fields.
\<close>

theorem zero_capacity_counterexample:
  "validate_data float_of_string [team_inf] = Inr (clean_report, [])
   \<and> float_field float_of_string team_inf ''available_capacity'' = Inr (Fin 0)
   \<and> calculate_metrics float_of_string team_inf = Inr inf_metrics
   \<and> agent_capacity inf_metrics = NaN
   \<and> utilization_rate inf_metrics = NaN
   \<and> composite_score inf_metrics = NaN
   \<and> staffing_efficiency_ratio inf_metrics = NaN"
  using inf_validated inf_available_capacity inf_result by (simp add: inf_metrics_def)

text \<open>
  Claim C7, amended. For a record of a validated batch with \<open>available_capacity = 0\<close> and a
  \<open>shift_hours\<close> whose product with 60 is finite, the agent capacity is zero,
  \<open>calculate_metrics\<close> raises \<open>ZeroDivisionError\<close>, and \<open>process_input\<close> propagates it
  instead of returning a report.
\<close>

theorem zero_capacity_raises:
  assumes "validate_data pf teams = Inr (report, [])" and "t \<in> set teams" and "is_dict t"
    and "float_field pf t ''available_capacity'' = Inr av" and "is_zero av"
    and "float_field pf t ''shift_hours'' = Inr sh" and "is_finite (fmul sh (lit 60))"
  shows "(\<exists>r. fdiv av (lit 100) = Inr r \<and> is_zero (fmul (fmul sh (lit 60)) r))
       \<and> calculate_metrics pf t = Inl ZeroDivisionError
       \<and> (parse input_data = Inr teams \<longrightarrow> (\<forall>u \<in> set teams. is_dict u) \<longrightarrow>
            fst (process_input parse render pf input_data) = Inl ZeroDivisionError)"
proof -
  have "\<not> is_zero (lit 100)" by (simp add: lit_100)
  then obtain r where r: "fdiv av (lit 100) = Inr r" using fdiv_Inr by blast
  from fdiv_zero_dividend [OF assms(5) r] have "is_zero r" .
  from fmul_finite_zero [OF assms(7) this] have z: "is_zero (fmul (fmul sh (lit 60)) r)" .
  have raise: "calculate_metrics pf t = Inl ZeroDivisionError"
  proof (rule ccontr)
    assume "calculate_metrics pf t \<noteq> Inl ZeroDivisionError"
    with calculate_metrics_validated [OF assms(1-3)] obtain m where
      m: "float_field pf t ''shift_hours'' = Inr (shift_hours m)"
         "float_field pf t ''available_capacity'' = Inr (available_capacity m)"
         "spec_formula_chain m"
      by blast
    from m(1,2) assms(4,6) have e: "shift_hours m = sh" "available_capacity m = av" by simp_all
    from m(3) have "agent_capacity m = fmul (fmul sh (lit 60)) r"
      by (auto simp: spec_formula_chain_def e r bnd_def)
    moreover from m(3) have "\<exists>u. fdiv (workload_per_agent m) (agent_capacity m) = Inr u"
      by (auto simp: spec_formula_chain_def bnd_def split: sum.splits)
    ultimately show False using z by (simp add: fdiv_def)
  qed
  have "fst (process_input parse render pf input_data) = Inl ZeroDivisionError"
    if p: "parse input_data = Inr teams" and d: "\<forall>u \<in> set teams. is_dict u"
  proof -
    from d have "\<forall>u \<in> set teams. u \<in> set teams \<and> is_dict u" by simp
    from team_results_validated [OF assms(1) this] raise assms(2)
    have "fst (team_results pf teams) = Inl ZeroDivisionError" by force
    then show ?thesis
      by (simp add: process_input_validated [where parse = parse and input_data = input_data,
            OF p assms(1)] bnd_def)
  qed
  with r z raise show ?thesis by blast
qed

theorem zero_capacity_raises_witness:
  "validate_data float_of_string [team_zero] = Inr (clean_report, [])
   \<and> team_zero \<in> set [team_zero]
   \<and> is_dict team_zero
   \<and> float_field float_of_string team_zero ''available_capacity'' = Inr (Fin 0)
   \<and> is_zero (Fin 0)
   \<and> float_field float_of_string team_zero ''shift_hours'' = Inr (Fin 8)
   \<and> is_finite (fmul (Fin 8) (lit 60))
   \<and> calculate_metrics float_of_string team_zero = Inl ZeroDivisionError
   \<and> fst (process_input (parsed_as [team_zero]) status_report float_of_string
            zero_csv) = Inl ZeroDivisionError"
proof -
  have h: "team_zero \<in> set [team_zero]" by simp
  have z: "is_zero (Fin 0)" by simp
  have f: "is_finite (fmul (Fin 8) (lit 60))" by (simp add: lit_60 omega_mul3)
  have p: "parsed_as [team_zero] zero_csv = Inr [team_zero]"
    by (simp add: parsed_as_def)
  have d: "\<forall>u \<in> set [team_zero]. is_dict u" by (simp add: zero_is_dict)
  from zero_capacity_raises [OF zero_validated h zero_is_dict zero_available_capacity z
      zero_shift_hours f, of "parsed_as [team_zero]" zero_csv status_report] p d
  have "calculate_metrics float_of_string team_zero = Inl ZeroDivisionError
      \<and> fst (process_input (parsed_as [team_zero]) status_report float_of_string
            zero_csv) = Inl ZeroDivisionError"
    by blast
  then show ?thesis
    using zero_validated zero_is_dict zero_available_capacity zero_shift_hours f
    by simp
qed

section \<open>The worked example\<close>

text \<open>
  Claim C8 gives, for the first team of the sample data, a composite score of about 62.26.
  The code computes 84.625 there.
\<close>

theorem sample_composite_score_counterexample:
  "calculate_metrics float_of_string team_omega = Inr omega_metrics
   \<and> composite_score omega_metrics = Fin (677 / 8)
   \<and> \<not> approx2 (composite_score omega_metrics) (6226 / 100)"
  using omega_result [of float_of_string] by (simp add: omega_metrics_def approx2_def)

text \<open>
  Claim C8, amended. For \<open>current_staff = 10\<close>, \<open>queries_per_day = 150\<close>,
  \<open>average_query_time = 3.0\<close>, \<open>shift_hours = 8\<close>, \<open>available_capacity = 70\<close> and
  \<open>remote_infrastructure_efficiency = 80\<close> the calculation yields
  \<open>workload_per_agent = 45.0\<close>, \<open>agent_capacity = 336.0\<close>, \<open>utilization_rate \<approx> 13.39\<close> and
  \<open>composite_score = 84.625\<close>.
\<close>

theorem sample_metrics:
  "calculate_metrics pf team_omega = Inr omega_metrics
   \<and> current_staff omega_metrics = Fin 10
   \<and> queries_per_day omega_metrics = Fin 150
   \<and> average_query_time omega_metrics = Fin 3
   \<and> shift_hours omega_metrics = Fin 8
   \<and> available_capacity omega_metrics = Fin 70
   \<and> remote_infrastructure_efficiency omega_metrics = Fin 80
   \<and> workload_per_agent omega_metrics = Fin 45
   \<and> agent_capacity omega_metrics = Fin 336
   \<and> approx2 (utilization_rate omega_metrics) (1339 / 100)
   \<and> composite_score omega_metrics = Fin (84625 / 1000)"
  using omega_result [of pf] by (simp add: omega_metrics_def approx2_def)

section \<open>The round trip of the workload\<close>





section \<open>The validity rollup\<close>

lemma bad_validated: "validate_data float_of_string [team_bad] = Inr (bad_report, bad_errors)"
  unfolding bad_report_def bad_errors_def by code_simp

lemma bad_current_staff:
  "\<forall>t \<in> set [team_bad]. \<forall>v. map_of t ''current_staff'' = Some v
      \<longrightarrow> to_float float_of_string v = Inl ValueError"
proof -
  have "float_of_string ''ten'' = None" by code_simp
  then show ?thesis by (simp add: team_bad_def)
qed

lemma bad_shift_hours:
  "\<forall>t \<in> set [team_bad]. \<forall>v. map_of t ''shift_hours'' = Some v
      \<longrightarrow> to_float float_of_string v = Inl ValueError"
  by (simp add: team_bad_def)

text \<open>
  Claim C10. In the report of a non-empty batch the lines 14 to 19 are the rollup of the six
  numeric fields, and each says \<open>not valid\<close> exactly if some collected error contains
  \<open>Invalid value for '<field>'\<close>, and \<open>validated\<close> otherwise. Consequently the line of a
  field that every row lacks or holds with a value that fails numeric parsing says
  \<open>validated\<close>, whatever errors the batch has.
\<close>

theorem rollup_marks:
  assumes "validate_data pf teams = Inr (report, errors)" and "teams \<noteq> []"
  shows "report ! 13 = '' - current_staff (positive integer): ''
            @ (if \<exists>e \<in> set errors. is_substring (''Invalid value for 'current_staff'' @ apos) e
               then ''not valid'' else ''validated'')
       \<and> report ! 14 = '' - queries_per_day (positive integer): ''
            @ (if \<exists>e \<in> set errors. is_substring (''Invalid value for 'queries_per_day'' @ apos) e
               then ''not valid'' else ''validated'')
       \<and> report ! 15 = '' - average_query_time (positive number): ''
            @ (if \<exists>e \<in> set errors. is_substring (''Invalid value for 'average_query_time'' @ apos) e
               then ''not valid'' else ''validated'')
       \<and> report ! 16 = '' - shift_hours (positive number): ''
            @ (if \<exists>e \<in> set errors. is_substring (''Invalid value for 'shift_hours'' @ apos) e
               then ''not valid'' else ''validated'')
       \<and> report ! 17 = '' - available_capacity (0 to 100): ''
            @ (if \<exists>e \<in> set errors. is_substring (''Invalid value for 'available_capacity'' @ apos) e
               then ''not valid'' else ''validated'')
       \<and> report ! 18 = '' - remote_infrastructure_efficiency (0 to 100): ''
            @ (if \<exists>e \<in> set errors.
                    is_substring (''Invalid value for 'remote_infrastructure_efficiency'' @ apos) e
               then ''not valid'' else ''validated'')
       \<and> (\<forall>i < 6.
             (\<forall>t \<in> set teams. \<forall>v. map_of t (numeric_fields ! i) = Some v
                 \<longrightarrow> to_float pf v = Inl ValueError)
             \<longrightarrow> prefix ('' - '' @ numeric_fields ! i @ '' ('') (report ! (13 + i))
                 \<and> suffix ''): validated'' (report ! (13 + i)))"
proof -
  from validate_data_nonempty [OF assms] obtain pre where
    len: "length pre = 12"
    and rep: "report =
             pre @ [''\<newline>## Data Type and Value Validation:'']
             @ map (rollup_line ''positive integer'' errors) [''current_staff'', ''queries_per_day'']
             @ map (rollup_line ''positive number'' errors) [''average_query_time'', ''shift_hours'']
             @ map (rollup_line ''0 to 100'' errors)
                 [''available_capacity'', ''remote_infrastructure_efficiency'']
             @ [''\<newline>## Validation Summary:'']
             @ validation_summary errors"
    by blast
  have r: "report ! 13 = rollup_line ''positive integer'' errors ''current_staff''"
    "report ! 14 = rollup_line ''positive integer'' errors ''queries_per_day''"
    "report ! 15 = rollup_line ''positive number'' errors ''average_query_time''"
    "report ! 16 = rollup_line ''positive number'' errors ''shift_hours''"
    "report ! 17 = rollup_line ''0 to 100'' errors ''available_capacity''"
    "report ! 18 = rollup_line ''0 to 100'' errors ''remote_infrastructure_efficiency''"
    unfolding rep using len by (simp_all add: nth_append)
  have lines: "report ! 13 = '' - current_staff (positive integer): ''
            @ (if \<exists>e \<in> set errors. is_substring (''Invalid value for 'current_staff'' @ apos) e
               then ''not valid'' else ''validated'')"
    "report ! 14 = '' - queries_per_day (positive integer): ''
            @ (if \<exists>e \<in> set errors. is_substring (''Invalid value for 'queries_per_day'' @ apos) e
               then ''not valid'' else ''validated'')"
    "report ! 15 = '' - average_query_time (positive number): ''
            @ (if \<exists>e \<in> set errors. is_substring (''Invalid value for 'average_query_time'' @ apos) e
               then ''not valid'' else ''validated'')"
    "report ! 16 = '' - shift_hours (positive number): ''
            @ (if \<exists>e \<in> set errors. is_substring (''Invalid value for 'shift_hours'' @ apos) e
               then ''not valid'' else ''validated'')"
    "report ! 17 = '' - available_capacity (0 to 100): ''
            @ (if \<exists>e \<in> set errors. is_substring (''Invalid value for 'available_capacity'' @ apos) e
               then ''not valid'' else ''validated'')"
    "report ! 18 = '' - remote_infrastructure_efficiency (0 to 100): ''
            @ (if \<exists>e \<in> set errors.
                    is_substring (''Invalid value for 'remote_infrastructure_efficiency'' @ apos) e
               then ''not valid'' else ''validated'')"
    by (simp_all add: r rollup_line_def list_ex_iff)
  have clean: "\<exists>kind. report ! (13 + i) = '' - '' @ numeric_fields ! i @ '' ('' @ kind @ ''): validated''"
    if i: "i < 6"
      and u: "\<forall>t \<in> set teams. \<forall>v. map_of t (numeric_fields ! i) = Some v
                 \<longrightarrow> to_float pf v = Inl ValueError"
    for i
  proof -
    from i have f: "numeric_fields ! i \<in> set numeric_fields"
      by (intro nth_mem) (simp add: numeric_fields_def)
    have n: "\<not> list_ex (is_substring (''Invalid value for '' @ apos @ numeric_fields ! i @ apos)) errors"
      using no_value_error [OF assms f u] by (auto simp: list_ex_iff)
    from i consider "i = 0" | "i = 1" | "i = 2" | "i = 3" | "i = 4" | "i = 5" by linarith
    then have "\<exists>kind. report ! (13 + i) = rollup_line kind errors (numeric_fields ! i)"
      by cases (simp_all add: r numeric_fields_def, (rule exI, rule refl)+)
    then show ?thesis using n by (auto simp: rollup_line_def)
  qed
  have "prefix ('' - '' @ numeric_fields ! i @ '' ('') (report ! (13 + i))
      \<and> suffix ''): validated'' (report ! (13 + i))"
    if i: "i < 6"
      and u: "\<forall>t \<in> set teams. \<forall>v. map_of t (numeric_fields ! i) = Some v
                 \<longrightarrow> to_float pf v = Inl ValueError"
    for i
  proof -
    from clean [OF i u] obtain kind where
      k: "report ! (13 + i) = '' - '' @ numeric_fields ! i @ '' ('' @ kind @ ''): validated''"
      by blast
    have "prefix ('' - '' @ numeric_fields ! i @ '' ('')
            (('' - '' @ numeric_fields ! i @ '' ('') @ kind @ ''): validated'')"
      by (rule prefixI) simp
    moreover have "suffix ''): validated''
            (('' - '' @ numeric_fields ! i @ '' ('' @ kind) @ ''): validated'')"
      by (rule suffixI) simp
    ultimately show ?thesis unfolding k by simp
  qed
  with lines show ?thesis by blast
qed

theorem rollup_marks_witness:
  "validate_data float_of_string [team_bad] = Inr (bad_report, bad_errors)
   \<and> [team_bad] \<noteq> []
   \<and> bad_errors \<noteq> []
   \<and> suffix ''): validated'' (bad_report ! 13)
   \<and> suffix ''): validated'' (bad_report ! 16)"
proof -
  have ne: "[team_bad] \<noteq> []" by simp
  have e: "bad_errors \<noteq> []" by (simp add: bad_errors_def)
  have n: "numeric_fields ! 0 = ''current_staff''" "numeric_fields ! 3 = ''shift_hours''"
    by (simp_all add: numeric_fields_def)
  from rollup_marks [OF bad_validated ne]
  have "\<forall>i < 6.
          (\<forall>t \<in> set [team_bad]. \<forall>v. map_of t (numeric_fields ! i) = Some v
              \<longrightarrow> to_float float_of_string v = Inl ValueError)
          \<longrightarrow> suffix ''): validated'' (bad_report ! (13 + i))"
    by blast
  from this [rule_format, of 0] this [rule_format, of 3] bad_current_staff bad_shift_hours
  have "suffix ''): validated'' (bad_report ! 13)" "suffix ''): validated'' (bad_report ! 16)"
    by (simp_all add: n)
  with bad_validated ne e show ?thesis by blast
qed

section \<open>The gate between validation and calculation\<close>

lemma join_lines_contains: "l \<in> set ls \<Longrightarrow> \<exists>a b. join_lines ls = a @ l @ b"
proof (induction ls rule: join_lines.induct)
  case 1
  then show ?case by simp
next
  case (2 k)
  then have "join_lines [k] = [] @ l @ []" by simp
  then show ?case by blast
next
  case (3 k k' ks)
  show ?case
  proof (cases "l = k")
    case True
    then have "join_lines (k # k' # ks) = [] @ l @ (''\<newline>'' @ join_lines (k' # ks))" by simp
    then show ?thesis by blast
  next
    case False
    with 3 obtain a b where "join_lines (k' # ks) = a @ l @ b" by auto
    then have "join_lines (k # k' # ks) = (k @ ''\<newline>'' @ a) @ l @ b" by simp
    then show ?thesis by blast
  qed
qed

lemma embedded_in_joined:
  assumes "p @ e \<in> set ls"
  shows "is_substring e (join_lines ls)"
proof -
  from join_lines_contains [OF assms] obtain a b where "join_lines ls = a @ (p @ e) @ b" by blast
  then have "join_lines ls = (a @ p) @ e @ b" by simp
  then show ?thesis unfolding is_substring_sublist by (metis sublist_appendI)
qed

lemma empty_batch_has_error: "validate_data pf [] = Inr (report, errors) \<Longrightarrow> errors \<noteq> []"
  by (auto simp: validate_data_def)

lemma empty_batch: "validate_data pf [] = Inr (empty_report, [''ERROR: No teams found in the input data.''])"
  by (simp add: validate_data_def empty_report_def str_nat.simps)

text \<open>
  Claim C1 says that on a validation failure the pipeline returns the validation report with
  the error list embedded. For the empty batch \<open>validate_data\<close> returns before the summary
  section is written: the pipeline returns the four lines of the structure check, which do
  not mention the error.
\<close>

theorem pipeline_gate_counterexample:
  "validate_data float_of_string [] = Inr (empty_report, [''ERROR: No teams found in the input data.''])
   \<and> process_input (parsed_as []) status_report float_of_string empty_json
       = (Inr (join_lines empty_report), [])
   \<and> \<not> is_substring ''No teams found'' (join_lines empty_report)"
proof -
  have "\<not> is_substring ''No teams found'' (join_lines empty_report)"
    by (simp add: empty_report_def)
  then show ?thesis
    by (simp add: empty_batch process_input_def parsed_as_def)
qed

text \<open>
  Claim C1, amended. If \<open>validate_data\<close> collects at least one error, \<open>process_input\<close> returns
  exactly the joined validation report and never invokes \<open>calculate_metrics\<close>; for a
  non-empty batch every error is a line of that report. If it collects no error,
  \<open>calculate_metrics\<close> is invoked, on the records of the batch in order.
\<close>

theorem pipeline_gate:
  assumes "parse input_data = Inr teams" and "validate_data pf teams = Inr (report, errors)"
  shows "(errors \<noteq> [] \<longrightarrow>
            process_input parse render pf input_data = (Inr (join_lines report), [])
          \<and> (teams \<noteq> [] \<longrightarrow>
               (\<forall>e \<in> set errors. ''- '' @ e \<in> set report \<and> is_substring e (join_lines report))))
       \<and> (errors = [] \<longrightarrow>
            snd (process_input parse render pf input_data) \<noteq> []
          \<and> prefix (snd (process_input parse render pf input_data)) teams)"
proof (intro conjI impI)
  assume "errors \<noteq> []"
  with assms show "process_input parse render pf input_data = (Inr (join_lines report), [])"
    by (simp add: process_input_def)
next
  assume ne: "errors \<noteq> []" and t: "teams \<noteq> []"
  from validate_data_nonempty [OF assms(2) t] obtain pre where
    rep: "report =
             pre @ [''\<newline>## Data Type and Value Validation:'']
             @ map (rollup_line ''positive integer'' errors) [''current_staff'', ''queries_per_day'']
             @ map (rollup_line ''positive number'' errors) [''average_query_time'', ''shift_hours'']
             @ map (rollup_line ''0 to 100'' errors)
                 [''available_capacity'', ''remote_infrastructure_efficiency'']
             @ [''\<newline>## Validation Summary:'']
             @ validation_summary errors"
    by blast
  show "\<forall>e \<in> set errors. ''- '' @ e \<in> set report \<and> is_substring e (join_lines report)"
  proof
    fix e assume "e \<in> set errors"
    with ne have "''- '' @ e \<in> set (validation_summary errors)"
      by (simp add: validation_summary_def)
    then have l: "''- '' @ e \<in> set report" unfolding rep by (simp only: set_append Un_iff simp_thms)
    from l embedded_in_joined [OF l]
    show "''- '' @ e \<in> set report \<and> is_substring e (join_lines report)" by simp
  qed
next
  assume e: "errors = []"
  with assms(2) empty_batch_has_error have t: "teams \<noteq> []" by blast
  from assms e have p: "process_input parse render pf input_data =
           (bnd (fst (team_results pf teams))
              (\<lambda>results. Inr (join_lines report @ ''\<newline>\<newline>'' @ render teams results)),
            snd (team_results pf teams))"
    by (intro process_input_validated) simp_all
  show "snd (process_input parse render pf input_data) \<noteq> []"
    unfolding p using team_results_nonempty [OF t] by simp
  show "prefix (snd (process_input parse render pf input_data)) teams"
    unfolding p using team_results_prefix by simp
qed

theorem pipeline_gate_witness:
  "parsed_as [team_bad] bad_csv = Inr [team_bad]
   \<and> validate_data float_of_string [team_bad] = Inr (bad_report, bad_errors)
   \<and> bad_errors \<noteq> []
   \<and> process_input (parsed_as [team_bad]) status_report float_of_string bad_csv
       = (Inr (join_lines bad_report), [])
   \<and> is_substring (type_message ''current_staff'' 1) (join_lines bad_report)
   \<and> parsed_as [team_zero] zero_csv = Inr [team_zero]
   \<and> validate_data float_of_string [team_zero] = Inr (clean_report, [])
   \<and> snd (process_input (parsed_as [team_zero]) status_report float_of_string zero_csv)
       = [team_zero]"
proof -
  have p: "parsed_as [team_bad] bad_csv = Inr [team_bad]" by (simp add: parsed_as_def)
  have e: "bad_errors \<noteq> []" by (simp add: bad_errors_def)
  have m: "type_message ''current_staff'' 1 \<in> set bad_errors"
    by (simp add: bad_errors_def type_message_def str_nat.simps)
  have ne: "[team_bad] \<noteq> []" by simp
  from pipeline_gate [where parse = "parsed_as [team_bad]" and input_data = bad_csv
      and render = status_report, OF p bad_validated] e ne m
  have 1: "process_input (parsed_as [team_bad]) status_report float_of_string bad_csv
       = (Inr (join_lines bad_report), [])"
    and 2: "is_substring (type_message ''current_staff'' 1) (join_lines bad_report)"
    by blast+
  have q: "parsed_as [team_zero] zero_csv = Inr [team_zero]" by (simp add: parsed_as_def)
  from pipeline_gate [where parse = "parsed_as [team_zero]" and input_data = zero_csv
      and render = status_report, OF q zero_validated]
  have "snd (process_input (parsed_as [team_zero]) status_report float_of_string zero_csv) \<noteq> []"
    and "prefix (snd (process_input (parsed_as [team_zero]) status_report float_of_string zero_csv))
           [team_zero]"
    by blast+
  then have 3: "snd (process_input (parsed_as [team_zero]) status_report float_of_string zero_csv)
       = [team_zero]"
    by (cases "snd (process_input (parsed_as [team_zero]) status_report float_of_string zero_csv)")
       simp_all
  from p bad_validated e 1 2 q zero_validated 3 show ?thesis by blast
qed

section \<open>The empty batch\<close>

text \<open>
  Claim C6. For the empty batch \<open>validate_data\<close> returns normally, with the four lines of
  the structure check as the whole report and the single error \<open>No teams found\<close>: no
  section of the required-fields check, of the type and value validation or of the summary
  is produced, and no value is converted, whatever \<open>float\<close> does on strings.
\<close>

theorem validate_data_empty_batch:
  "validate_data pf [] =
     Inr ([''# Data Validation Report'', ''## Data Structure Check:'',
           '' - Number of teams: 0'', '' - Number of fields per record: 0''],
          [''ERROR: No teams found in the input data.''])"
  by (simp add: validate_data_def str_nat.simps)

end
